theory Spec2Isabelle
  imports Main "HOL-Library.Word"
begin

section \<open>JavaScript strings\<close>

text \<open>
  A JavaScript string is modelled as a \<^typ>\<open>string\<close>: a list of code units, each below 256
  (the Latin-1 range, which is what an HTTP header carries).  The string functions of the
  platform that the library calls are written out on that range.
\<close>

definition isWhiteSpace :: "char \<Rightarrow> bool" where
  \<comment> \<open>the class \<open>\s\<close> of a regular expression, and what \<open>trimEnd\<close> removes: TAB, LF, VT, FF, CR,
      SPACE and NBSP are the members below 256\<close>
  "isWhiteSpace c = ((of_char c :: nat) \<in> {9, 10, 11, 12, 13, 32, 160})"

definition toLowerChar :: "char \<Rightarrow> char" where
  \<comment> \<open>A-Z, and the upper-case letters of Latin-1 (U+00C0..U+00DE without U+00D7), map 32 up\<close>
  "toLowerChar c =
     (let n = (of_char c :: nat)
      in if (65 \<le> n \<and> n \<le> 90) \<or> (192 \<le> n \<and> n \<le> 222 \<and> n \<noteq> 215)
         then char_of (n + 32) else c)"

definition toLowerCase :: "string \<Rightarrow> string" where
  "toLowerCase s = map toLowerChar s"

definition trimEnd :: "string \<Rightarrow> string" where
  "trimEnd s = rev (dropWhile isWhiteSpace (rev s))"

fun join_str :: "string \<Rightarrow> string list \<Rightarrow> string" where
  "join_str sep [] = []"
| "join_str sep [x] = x"
| "join_str sep (x # y # ys) = x @ sep @ join_str sep (y # ys)"

fun split_chr :: "char \<Rightarrow> string \<Rightarrow> string list" where
  \<comment> \<open>\<open>s.split(c)\<close> for a one-character separator: one more piece than there are separators\<close>
  "split_chr c [] = [[]]"
| "split_chr c (x # xs) =
     (if x = c then [] # split_chr c xs
      else (case split_chr c xs of [] \<Rightarrow> [[x]] | p # ps \<Rightarrow> (x # p) # ps))"

definition startsWith :: "string \<Rightarrow> string \<Rightarrow> bool" where
  "startsWith s p = (take (length p) s = p)"

definition endsWith :: "string \<Rightarrow> string \<Rightarrow> bool" where
  "endsWith s p = (length p \<le> length s \<and> drop (length s - length p) s = p)"

section \<open>Errors\<close>

text \<open>
  The two error classes of \<open>types.ts\<close>, and the two platform exceptions that the calls into
  \<open>crypto\<close> and \<open>Buffer\<close> can raise.  Each carries its message.
\<close>

datatype error =
    VerificationError string
  | ConfigurationError string
  | RangeError string
  | TypeError string

fun mapE :: "('a \<Rightarrow> error + 'b) \<Rightarrow> 'a list \<Rightarrow> error + 'b list" where
  \<comment> \<open>\<open>Array.prototype.map\<close> with a callback that may throw: the first throw ends the loop\<close>
  "mapE f [] = Inr []"
| "mapE f (x # xs) =
     (case f x of
        Inl e \<Rightarrow> Inl e
      | Inr y \<Rightarrow> (case mapE f xs of Inl e \<Rightarrow> Inl e | Inr ys \<Rightarrow> Inr (y # ys)))"

section \<open>MessageContext\<close>

record RequestTarget =
  rt_method :: string
  rt_path :: string

record HttpMessage =
  message_getHeader :: "string \<Rightarrow> string list option"
  requestTarget :: "RequestTarget option"

record MessageContextOptions =
  createdAt :: "string option"
  expiresAt :: "string option"

record MessageContext =
  message :: HttpMessage
  options :: MessageContextOptions

definition getRequestTarget :: "MessageContext \<Rightarrow> error + string" where
  "getRequestTarget ctx =
     (case requestTarget (message ctx) of
        None \<Rightarrow> Inl (ConfigurationError ''BUG: attempted to sign/verify (request-target) for response'')
      | Some rt \<Rightarrow> Inr (toLowerCase (rt_method rt) @ '' '' @ rt_path rt))"

definition truthyStr :: "string option \<Rightarrow> bool" where
  \<comment> \<open>an optional string used as a condition: \<open>undefined\<close> and the empty string are falsy\<close>
  "truthyStr v = (case v of None \<Rightarrow> False | Some s \<Rightarrow> s \<noteq> [])"

definition getHeader :: "MessageContext \<Rightarrow> string \<Rightarrow> error + string list option" where
  "getHeader ctx name =
     (let normalizedName = toLowerCase name
      in if normalizedName = ''(request-target)'' then
           (case getRequestTarget ctx of Inl e \<Rightarrow> Inl e | Inr t \<Rightarrow> Inr (Some [t]))
         else if normalizedName = ''(created)'' then
           Inr (if truthyStr (createdAt (options ctx))
                then Some [the (createdAt (options ctx))] else None)
         else if normalizedName = ''(expires)'' then
           Inr (if truthyStr (expiresAt (options ctx))
                then Some [the (expiresAt (options ctx))] else None)
         else Inr (message_getHeader (message ctx) normalizedName))"

definition missingHeaderMsg :: "string \<Rightarrow> string" where
  "missingHeaderMsg h = ''attempted to sign/verify missing header '' @ [CHR 0x27] @ h @ [CHR 0x27]"

definition canonicalLine :: "MessageContext \<Rightarrow> string \<Rightarrow> error + string" where
  \<comment> \<open>the callback of \<open>headers.map\<close> in \<open>canonicalString\<close>\<close>
  "canonicalLine ctx h =
     (let lowerName = toLowerCase h
      in case getHeader ctx lowerName of
           Inl e \<Rightarrow> Inl e
         | Inr None \<Rightarrow> Inl (VerificationError (missingHeaderMsg h))
         | Inr (Some headerValues) \<Rightarrow>
             Inr (trimEnd (lowerName @ '': '' @ join_str '', '' headerValues)))"

definition canonicalString :: "MessageContext \<Rightarrow> string list \<Rightarrow> error + string" where
  "canonicalString ctx headers =
     (case mapE (canonicalLine ctx) headers of
        Inl e \<Rightarrow> Inl e
      | Inr mergedHeaders \<Rightarrow> Inr (join_str [CHR 0x0A] mergedHeaders))"

section \<open>Buffers\<close>

text \<open>
  A \<open>Buffer\<close> is a list of bytes.  The base64 codec and the UTF-8 encoder are the platform's;
  they are written out here as the platform documents them.  The decoder is the lenient one
  of \<open>Buffer.from(s, 'base64')\<close>: it stops at the first \<open>=\<close>, skips every character outside
  the alphabet, and accepts the URL-safe \<open>-\<close> and \<open>_\<close>.
\<close>

type_synonym byte = "8 word"
type_synonym Buffer = "byte list"

definition base64_char :: "nat \<Rightarrow> char" where
  "base64_char v =
     (if v < 26 then char_of (v + 65)
      else if v < 52 then char_of (v + 71)
      else if v < 62 then char_of (v - 4)
      else if v = 62 then CHR ''+'' else CHR ''/'')"

definition unbase64 :: "char \<Rightarrow> nat option" where
  "unbase64 c =
     (let n = (of_char c :: nat)
      in if 65 \<le> n \<and> n \<le> 90 then Some (n - 65)
         else if 97 \<le> n \<and> n \<le> 122 then Some (n - 71)
         else if 48 \<le> n \<and> n \<le> 57 then Some (n + 4)
         else if n = 43 \<or> n = 45 then Some 62
         else if n = 47 \<or> n = 95 then Some 63
         else None)"

fun sextets_to_bytes :: "nat list \<Rightarrow> Buffer" where
  "sextets_to_bytes (a # b # c # d # rest) =
     of_nat (a * 4 + b div 16) # of_nat ((b mod 16) * 16 + c div 4) # of_nat ((c mod 4) * 64 + d)
       # sextets_to_bytes rest"
| "sextets_to_bytes [a, b, c] = [of_nat (a * 4 + b div 16), of_nat ((b mod 16) * 16 + c div 4)]"
| "sextets_to_bytes [a, b] = [of_nat (a * 4 + b div 16)]"
| "sextets_to_bytes _ = []"

definition base64_decode :: "string \<Rightarrow> Buffer" where
  "base64_decode s = sextets_to_bytes (List.map_filter unbase64 (takeWhile (\<lambda>c. c \<noteq> CHR ''='') s))"

fun base64_encode :: "Buffer \<Rightarrow> string" where
  "base64_encode (a # b # c # rest) =
     base64_char (unat a div 4) # base64_char ((unat a mod 4) * 16 + unat b div 16)
       # base64_char ((unat b mod 16) * 4 + unat c div 64) # base64_char (unat c mod 64)
       # base64_encode rest"
| "base64_encode [a, b] =
     [base64_char (unat a div 4), base64_char ((unat a mod 4) * 16 + unat b div 16),
      base64_char ((unat b mod 16) * 4), CHR ''='']"
| "base64_encode [a] =
     [base64_char (unat a div 4), base64_char ((unat a mod 4) * 16), CHR ''='', CHR ''='']"
| "base64_encode [] = []"

definition utf8_encode :: "string \<Rightarrow> Buffer" where
  \<comment> \<open>code units below 128 are one byte, the others of the Latin-1 range two\<close>
  "utf8_encode s =
     concat (map (\<lambda>c. let n = (of_char c :: nat)
                      in if n < 128 then [of_nat n]
                         else [of_nat (192 + n div 64), of_nat (128 + n mod 64)]) s)"

section \<open>Signature: the parameter parser\<close>

definition EXPIRES_SLACK :: int where
  "EXPIRES_SLACK = 60000"

definition CREATED_SLACK :: int where
  "CREATED_SLACK = 60000"

definition MSG_MALFORMED :: string where
  "MSG_MALFORMED = ''malformed signature string''"

text \<open>
  A \<open>Date\<close> holds a time value in milliseconds, or is invalid (its \<open>valueOf()\<close> is \<open>NaN\<close>).
  \<open>new Date(x)\<close> is invalid when \<open>x\<close> is not finite or beyond 8.64e15 in magnitude.
\<close>

datatype Date = Date int | InvalidDate

definition newDate :: "int option \<Rightarrow> Date" where
  "newDate x =
     (case x of
        None \<Rightarrow> InvalidDate
      | Some ms \<Rightarrow> if \<bar>ms\<bar> \<le> 8640000000000000 then Date ms else InvalidDate)"

text \<open>
  What the library takes from the platform: the clock; the floating-point evaluation of
  \<open>Math.floor(parseFloat(s) * 1000)\<close> on a decimal literal (\<open>None\<close> when the result is not
  finite); the hash functions of \<open>crypto.createHash\<close>, by name; and the MACs of
  \<open>crypto.createHmac\<close>, by name and key.  Floating-point rounding and the cryptographic
  functions are not modelled; they are parameters.
\<close>

record platform =
  date_now :: int
  parseFloat_floor_ms :: "string \<Rightarrow> int option"
  createHash :: "string \<Rightarrow> Buffer \<Rightarrow> Buffer"
  createHmac :: "string \<Rightarrow> Buffer \<Rightarrow> Buffer \<Rightarrow> Buffer"

datatype SignatureAlgorithm = HS2019 | RSA_SHA256 | HMAC_SHA256 | ECDSA_SHA256

fun SignatureAlgorithm_str :: "SignatureAlgorithm \<Rightarrow> string" where
  "SignatureAlgorithm_str HS2019 = ''hs2019''"
| "SignatureAlgorithm_str RSA_SHA256 = ''rsa-sha256''"
| "SignatureAlgorithm_str HMAC_SHA256 = ''hmac-sha256''"
| "SignatureAlgorithm_str ECDSA_SHA256 = ''ecdsa-sha256''"

definition SignatureAlgorithm_values :: "SignatureAlgorithm list" where
  "SignatureAlgorithm_values = [HS2019, RSA_SHA256, HMAC_SHA256, ECDSA_SHA256]"

fun bindE :: "error + 'a \<Rightarrow> ('a \<Rightarrow> error + 'b) \<Rightarrow> error + 'b" where
  "bindE (Inl e) f = Inl e"
| "bindE (Inr x) f = f x"

definition indexOf :: "string \<Rightarrow> char \<Rightarrow> nat option" where
  \<comment> \<open>\<open>s.indexOf(c)\<close>, with \<open>None\<close> for -1\<close>
  "indexOf s c = (if c \<in> set s then Some (length (takeWhile (\<lambda>x. x \<noteq> c) s)) else None)"

definition lastIndexOf :: "string \<Rightarrow> char \<Rightarrow> nat option" where
  "lastIndexOf s c =
     (if c \<in> set s then Some (length s - 1 - length (takeWhile (\<lambda>x. x \<noteq> c) (rev s))) else None)"

definition isDigit :: "char \<Rightarrow> bool" where
  "isDigit c = (48 \<le> (of_char c :: nat) \<and> (of_char c :: nat) \<le> 57)"

definition digitsValue :: "string \<Rightarrow> int" where
  "digitsValue s = foldl (\<lambda>acc c. acc * 10 + (of_char c - 48)) 0 s"

definition parseStringField :: "string \<Rightarrow> error + string" where
  \<comment> \<open>\<open>slice(1, -1)\<close> drops the first and the last character\<close>
  "parseStringField v =
     (if \<not> startsWith v [CHR 0x22] \<or> \<not> endsWith v [CHR 0x22]
      then Inl (VerificationError MSG_MALFORMED)
      else Inr (butlast (tl v)))"

definition parseIntField :: "string \<Rightarrow> error + int option" where
  \<comment> \<open>\<open>parseInt\<close> of a digit string is its value, and \<open>NaN\<close> (\<open>None\<close>) on the empty string.
      Above \<open>2^53\<close> the platform rounds; such a value is beyond the range of \<open>Date\<close> with or
      without the rounding.\<close>
  "parseIntField v =
     (if \<exists>c\<in>set v. \<not> isDigit c then Inl (VerificationError MSG_MALFORMED)
      else if startsWith v ''0'' \<and> v \<noteq> ''0'' then Inl (VerificationError MSG_MALFORMED)
      else Inr (if v = [] then None else Some (digitsValue v)))"

definition parseDecimalField :: "string \<Rightarrow> error + string" where
  \<comment> \<open>the checks of the source; the literal is returned, and \<open>parseFloat\<close> is applied to it
      where the result is used\<close>
  "parseDecimalField v =
     (if \<exists>c\<in>set v. \<not> (isDigit c \<or> c = CHR ''.'') then Inl (VerificationError MSG_MALFORMED)
      else
        (let firstDecimalIdx = indexOf v (CHR ''.'');
             lastDecimalIdx = lastIndexOf v (CHR ''.'')
         in if firstDecimalIdx = Some 0
               \<or> (case lastDecimalIdx of None \<Rightarrow> v = [] | Some i \<Rightarrow> i + 1 = length v)
            then Inl (VerificationError MSG_MALFORMED)
            else if startsWith v ''0'' \<and> length v > 1 \<and> firstDecimalIdx \<noteq> Some 1
            then Inl (VerificationError MSG_MALFORMED)
            else if firstDecimalIdx \<noteq> lastDecimalIdx then Inl (VerificationError MSG_MALFORMED)
            else Inr v))"

type_synonym fieldMap = "string \<rightharpoonup> string"

fun pairsToMap_loop :: "fieldMap \<Rightarrow> string list \<Rightarrow> error + fieldMap" where
  \<comment> \<open>the \<open>forEach\<close> of \<open>pairsToMap\<close>, with the map built so far\<close>
  "pairsToMap_loop out [] = Inr out"
| "pairsToMap_loop out (pair # pairs) =
     (case indexOf pair (CHR ''='') of
        None \<Rightarrow> Inl (VerificationError ''malformed signature string (missing `=` in field)'')
      | Some eqLocation \<Rightarrow>
          (let key = take eqLocation pair;
               val = drop (eqLocation + 1) pair
           in if key = [] \<or> val = [] \<or> (\<exists>c\<in>set key. isWhiteSpace c)
              then Inl (VerificationError MSG_MALFORMED)
              else if out key \<noteq> None
              then Inl (VerificationError (''duplicated field '' @ key @ '' present in signature''))
              else pairsToMap_loop (out(key \<mapsto> val)) pairs))"

definition pairsToMap :: "string list \<Rightarrow> error + fieldMap" where
  "pairsToMap pairs = pairsToMap_loop Map.empty pairs"

definition getKeyId :: "fieldMap \<Rightarrow> error + string" where
  "getKeyId fm =
     (if \<not> truthyStr (fm ''keyId'')
      then Inl (VerificationError ''required field `keyId` not present in signature'')
      else parseStringField (the (fm ''keyId'')))"

definition getSignatureAlgorithm :: "fieldMap \<Rightarrow> error + SignatureAlgorithm option" where
  "getSignatureAlgorithm fm =
     (if \<not> truthyStr (fm ''algorithm'') then Inr None
      else bindE (parseStringField (the (fm ''algorithm''))) (\<lambda>algorithm.
        case find (\<lambda>a. SignatureAlgorithm_str a = algorithm) SignatureAlgorithm_values of
          None \<Rightarrow> Inl (VerificationError
                    (''signature algorithm `'' @ algorithm @ ''` is not supported''))
        | Some a \<Rightarrow> Inr (Some a)))"

definition DEFAULT_HEADERS :: "string list" where
  "DEFAULT_HEADERS = [''(created)'']"

definition getHeaders :: "fieldMap \<Rightarrow> error + string list" where
  "getHeaders fm =
     (if \<not> truthyStr (fm ''headers'') then Inr DEFAULT_HEADERS
      else bindE (parseStringField (the (fm ''headers''))) (\<lambda>unquoted.
        let headers = map toLowerCase (split_chr (CHR '' '') unquoted)
        in if \<exists>s\<in>set headers. length s = 0 \<or> (\<exists>c\<in>set s. isWhiteSpace c)
           then Inl (VerificationError ''malformed header list in signature string'')
           else Inr headers))"

definition getSignature :: "fieldMap \<Rightarrow> error + Buffer" where
  "getSignature fm =
     (if \<not> truthyStr (fm ''signature'')
      then Inl (VerificationError ''required field `signature` not present in signature'')
      else bindE (parseStringField (the (fm ''signature''))) (\<lambda>signatureStr.
        let signature = base64_decode signatureStr;
            unpaddedSignatureString = filter (\<lambda>c. c \<noteq> CHR ''='') signatureStr
        in if (length unpaddedSignatureString * 3) div 4 \<noteq> length signature
              \<or> length signature = 0
           then Inl (VerificationError ''invalid base64 string provided in signature'')
           else Inr signature))"

definition getCreated :: "fieldMap \<Rightarrow> error + Date option" where
  "getCreated fm =
     (if \<not> truthyStr (fm ''created'') then Inr None
      else bindE (parseIntField (the (fm ''created''))) (\<lambda>createdNum.
        Inr (Some (newDate (map_option (\<lambda>n. n * 1000) createdNum)))))"

definition getExpires :: "platform \<Rightarrow> fieldMap \<Rightarrow> error + Date option" where
  "getExpires pf fm =
     (if \<not> truthyStr (fm ''expires'') then Inr None
      else bindE (parseDecimalField (the (fm ''expires''))) (\<lambda>literal.
        Inr (Some (newDate (parseFloat_floor_ms pf literal)))))"

record Signature =
  keyId :: string
  signature :: Buffer
  headers :: "string list"
  signatureAlgorithm :: "SignatureAlgorithm option"
  created :: "Date option"
  expires :: "Date option"
  observedAt :: Date

definition fromHeader :: "platform \<Rightarrow> string \<Rightarrow> Date option \<Rightarrow> error + Signature" where
  \<comment> \<open>\<open>observedAt\<close> is \<open>atTime || new Date()\<close>; a \<open>Date\<close> object is always truthy\<close>
  "fromHeader pf header atTime =
     bindE (pairsToMap (split_chr (CHR '','') header)) (\<lambda>fm.
     bindE (getKeyId fm) (\<lambda>k.
     bindE (getSignature fm) (\<lambda>sg.
     bindE (getHeaders fm) (\<lambda>hs.
     bindE (getSignatureAlgorithm fm) (\<lambda>alg.
     bindE (getCreated fm) (\<lambda>cr.
     bindE (getExpires pf fm) (\<lambda>ex.
       Inr \<lparr> keyId = k, signature = sg, headers = hs, signatureAlgorithm = alg,
             created = cr, expires = ex,
             observedAt = (case atTime of None \<Rightarrow> Date (date_now pf) | Some d \<Rightarrow> d) \<rparr>)))))))"

definition signedCreated :: "Signature \<Rightarrow> bool" where
  "signedCreated sg = (created sg \<noteq> None \<and> ''(created)'' \<in> set (headers sg))"

definition signedExpires :: "Signature \<Rightarrow> bool" where
  "signedExpires sg = (expires sg \<noteq> None \<and> ''(expires)'' \<in> set (headers sg))"

definition validCreation :: "Signature \<Rightarrow> bool" where
  \<comment> \<open>a comparison with \<open>NaN\<close>, the value of an invalid date, is false\<close>
  "validCreation sg =
     (case created sg of
        None \<Rightarrow> True
      | Some c \<Rightarrow>
          (case (c, observedAt sg) of
             (Date cm, Date om) \<Rightarrow> cm - om < CREATED_SLACK
           | _ \<Rightarrow> False))"

definition validExpires :: "Signature \<Rightarrow> bool" where
  "validExpires sg =
     (case expires sg of
        None \<Rightarrow> True
      | Some e \<Rightarrow>
          (case (observedAt sg, e) of
             (Date om, Date em) \<Rightarrow> om - em < EXPIRES_SLACK
           | _ \<Rightarrow> False))"

text \<open>
  Every failure of the parser is a verification error; the two predicates say that a result
  is such a failure, and that it is no other kind of failure.
\<close>

definition isVerificationError :: "error + 'a \<Rightarrow> bool" where
  "isVerificationError r = (case r of Inl (VerificationError m) \<Rightarrow> True | _ \<Rightarrow> False)"

definition onlyVerificationError :: "error + 'a \<Rightarrow> bool" where
  "onlyVerificationError r = (case r of Inl e \<Rightarrow> (\<exists>m. e = VerificationError m) | Inr _ \<Rightarrow> True)"

section \<open>Configuration values\<close>

text \<open>
  Key configurations and option records are JavaScript objects, read by property name at
  run time.  An object is the list of its own properties in insertion order.  A header
  specification is an object whose values are \<open>'sign'\<close>, \<open>'verify'\<close> or \<open>true\<close>.
\<close>

record KeyObject =
  key_type :: string
  key_material :: Buffer

datatype jsval =
    Undefined
  | Bool bool
  | Str string
  | Key KeyObject
  | Obj "(string \<times> jsval) list"

type_synonym jsobj = "(string \<times> jsval) list"

definition getProp :: "jsobj \<Rightarrow> string \<Rightarrow> jsval" where
  \<comment> \<open>\<open>obj[k]\<close>\<close>
  "getProp obj k = (case map_of obj k of None \<Rightarrow> Undefined | Some v \<Rightarrow> v)"

definition hasKey :: "jsobj \<Rightarrow> string \<Rightarrow> bool" where
  \<comment> \<open>\<open>k in obj\<close>\<close>
  "hasKey obj k = (k \<in> fst ` set obj)"

fun truthy :: "jsval \<Rightarrow> bool" where
  "truthy Undefined = False"
| "truthy (Bool b) = b"
| "truthy (Str s) = (s \<noteq> [])"
| "truthy (Key ko) = True"
| "truthy (Obj es) = True"

fun jsToString :: "jsval \<Rightarrow> string" where
  \<comment> \<open>the text of a value inside a template literal\<close>
  "jsToString Undefined = ''undefined''"
| "jsToString (Bool b) = (if b then ''true'' else ''false'')"
| "jsToString (Str s) = s"
| "jsToString (Key ko) = ''[object KeyObject]''"
| "jsToString (Obj es) = ''[object Object]''"

definition spread :: "jsobj \<Rightarrow> jsobj \<Rightarrow> jsobj" where
  \<comment> \<open>\<open>{ ...a, ...b }\<close>: the properties of \<open>a\<close> with the values of \<open>b\<close> where it has them, then
      the other properties of \<open>b\<close>\<close>
  "spread a b =
     map (\<lambda>(k, v). (k, case map_of b k of None \<Rightarrow> v | Some v' \<Rightarrow> v')) a
     @ filter (\<lambda>(k, v). k \<notin> fst ` set a) b"

definition without :: "jsobj \<Rightarrow> string list \<Rightarrow> jsobj" where
  \<comment> \<open>the rest of a destructuring \<open>{ k1, k2, ...rest } = obj\<close>\<close>
  "without obj ks = filter (\<lambda>(k, v). k \<notin> set ks) obj"

datatype DigestAlgorithm = Digest_SHA256 | Digest_SHA512

fun DigestAlgorithm_str :: "DigestAlgorithm \<Rightarrow> string" where
  "DigestAlgorithm_str Digest_SHA256 = ''SHA-256''"
| "DigestAlgorithm_str Digest_SHA512 = ''SHA-512''"

datatype HmacAlgorithm = Hmac_SHA256 | Hmac_SHA512

fun HmacAlgorithm_str :: "HmacAlgorithm \<Rightarrow> string" where
  "HmacAlgorithm_str Hmac_SHA256 = ''hmac-sha256''"
| "HmacAlgorithm_str Hmac_SHA512 = ''hmac-sha512''"

section \<open>SignatureKey and HmacSignatureKey\<close>

text \<open>
  A key holds its identifier, its scheme, its digest algorithm, its resolved options, its MAC
  algorithm and the secret that its MAC factory closes over.  The hash factory and the MAC
  factory of the source are \<open>createHash\<close> and \<open>createHmac\<close> of the platform at the names the
  source selects.
\<close>

record SignatureKey =
  key_id :: string
  key_signatureAlgorithm :: SignatureAlgorithm
  digestAlgorithm :: DigestAlgorithm
  key_options :: jsobj
  algorithm :: HmacAlgorithm
  secret :: Buffer

definition digestBuffer :: "platform \<Rightarrow> SignatureKey \<Rightarrow> Buffer \<Rightarrow> Buffer" where
  "digestBuffer pf k buf =
     createHash pf (case digestAlgorithm k of Digest_SHA256 \<Rightarrow> ''sha256'' | Digest_SHA512 \<Rightarrow> ''sha512'') buf"

definition createDigestHeader :: "platform \<Rightarrow> SignatureKey \<Rightarrow> Buffer \<Rightarrow> string" where
  "createDigestHeader pf k body =
     DigestAlgorithm_str (digestAlgorithm k) @ ''='' @ base64_encode (digestBuffer pf k body)"

definition timingSafeEqual :: "Buffer \<Rightarrow> Buffer \<Rightarrow> error + bool" where
  \<comment> \<open>\<open>crypto.timingSafeEqual\<close> throws a \<open>RangeError\<close> on buffers of different lengths\<close>
  "timingSafeEqual a b =
     (if length a \<noteq> length b then Inl (RangeError ''Input buffers must have the same byte length'')
      else Inr (a = b))"

definition verifyDigestHeader :: "platform \<Rightarrow> SignatureKey \<Rightarrow> Buffer \<Rightarrow> string \<Rightarrow> error + bool" where
  \<comment> \<open>\<open>digest.split('=', 2)\<close> keeps the first two pieces; with one piece only, the second
      variable is \<open>undefined\<close> and \<open>Buffer.from\<close> throws a \<open>TypeError\<close>\<close>
  "verifyDigestHeader pf k body digest =
     (let parts = take 2 (split_chr (CHR ''='') digest);
          cmpAlg = (case parts of [] \<Rightarrow> [] | x # _ \<Rightarrow> x)
      in if toLowerCase cmpAlg \<noteq> toLowerCase (DigestAlgorithm_str (digestAlgorithm k))
         then Inl (VerificationError (''mismatched digest algorithm: got '' @ cmpAlg
                     @ '', expected '' @ DigestAlgorithm_str (digestAlgorithm k)))
         else
           (case tl parts of
              [] \<Rightarrow> Inl (TypeError ''The first argument must be of type string or an instance of Buffer, ArrayBuffer, or Array or an Array-like Object. Received undefined'')
            | encodedCmpDigest # _ \<Rightarrow>
                (let cmpDigest = base64_decode encodedCmpDigest;
                     refDigest = digestBuffer pf k body
                 in case timingSafeEqual cmpDigest refDigest of
                      Inl e \<Rightarrow> Inl e
                    | Inr same \<Rightarrow>
                        if \<not> same then Inl (VerificationError ''body digest verification failed'')
                        else Inr True)))"

text \<open>
  The MAC primitive records each buffer it is invoked on in a log that is passed along, so
  that the order of events of a verification can be stated.
\<close>

type_synonym maclog = "Buffer list"

definition HmacSignatureKey_sign :: "platform \<Rightarrow> SignatureKey \<Rightarrow> Buffer \<Rightarrow> maclog \<Rightarrow> Buffer \<times> maclog" where
  "HmacSignatureKey_sign pf k buf log =
     (createHmac pf (case algorithm k of Hmac_SHA256 \<Rightarrow> ''sha256'' | Hmac_SHA512 \<Rightarrow> ''sha512'')
        (secret k) buf,
      log @ [buf])"

definition HmacSignatureKey_verify ::
  "platform \<Rightarrow> SignatureKey \<Rightarrow> Buffer \<Rightarrow> Buffer \<Rightarrow> maclog \<Rightarrow> (error + bool) \<times> maclog" where
  "HmacSignatureKey_verify pf k buf mac log =
     (case HmacSignatureKey_sign pf k buf log of
        (actualMac, log') \<Rightarrow>
          ((case timingSafeEqual actualMac mac of
              Inl (RangeError m) \<Rightarrow> Inl (VerificationError ''signature length mismatch'')
            | Inl e \<Rightarrow> Inl e
            | Inr same \<Rightarrow> Inr same),
           log'))"

fun headerList :: "jsval \<Rightarrow> string \<Rightarrow> error + string list" where
  \<comment> \<open>\<open>Object.entries\<close> throws on \<open>undefined\<close>; a boolean has no entries, and the entries of a
      string are its characters, none of which is a mode or \<open>true\<close>\<close>
  "headerList (Obj es) mode =
     Inr (map fst (filter (\<lambda>(h, v). v = Str mode \<or> v = Bool True) es))"
| "headerList Undefined mode = Inl (TypeError ''Cannot convert undefined or null to object'')"
| "headerList (Bool b) mode = Inr []"
| "headerList (Str s) mode = Inr []"
| "headerList (Key ko) mode = Inr []"

definition MessageContext_getSignature ::
  "platform \<Rightarrow> MessageContext \<Rightarrow> Date option \<Rightarrow> error + Signature option" where
  "MessageContext_getSignature pf ctx atTime =
     bindE (getHeader ctx ''signature'') (\<lambda>signatureHeaders.
     bindE (getHeader ctx ''authorization'') (\<lambda>authorizationHeaders.
       let signatureAuthHeaders =
             map_option (\<lambda>auths.
               map (\<lambda>auth. case indexOf auth (CHR '' '') of
                              None \<Rightarrow> auth
                            | Some spaceIdx \<Rightarrow> drop (spaceIdx + 1) auth)
                 (filter (\<lambda>auth. startsWith auth ''Signature '') auths))
               authorizationHeaders;
           signatures = (case signatureHeaders of None \<Rightarrow> [] | Some xs \<Rightarrow> xs)
                        @ (case signatureAuthHeaders of None \<Rightarrow> [] | Some xs \<Rightarrow> xs)
       in case signatures of
            [] \<Rightarrow> Inr None
          | [s] \<Rightarrow> bindE (fromHeader pf s atTime) (\<lambda>sg. Inr (Some sg))
          | _ \<Rightarrow> Inl (VerificationError ''multiple signatures present on message'')))"

definition signMessage ::
  "platform \<Rightarrow> SignatureKey \<Rightarrow> MessageContext \<Rightarrow> jsval \<Rightarrow> maclog \<Rightarrow> (error + string) \<times> maclog" where
  "signMessage pf k msgCtx headerSpec log =
     (case headerList headerSpec ''sign'' of
        Inl e \<Rightarrow> (Inl e, log)
      | Inr listed \<Rightarrow>
          (let headers = (if truthy (getProp (key_options k) ''calculateDigest'')
                             \<and> ''digest'' \<notin> set listed
                          then listed @ [''digest''] else listed)
           in case canonicalString msgCtx headers of
                Inl e \<Rightarrow> (Inl e, log)
              | Inr payload \<Rightarrow>
                  (case HmacSignatureKey_sign pf k (utf8_encode payload) log of
                     (mac, log') \<Rightarrow>
                       (Inr (''keyId='' @ [CHR 0x22] @ key_id k @ [CHR 0x22]
                             @ '',algorithm='' @ [CHR 0x22]
                             @ SignatureAlgorithm_str (key_signatureAlgorithm k) @ [CHR 0x22]
                             @ '',headers='' @ [CHR 0x22] @ join_str '' '' headers @ [CHR 0x22]
                             @ '',signature='' @ [CHR 0x22] @ base64_encode mac @ [CHR 0x22]),
                        log'))))"

definition verifyMessage ::
  "platform \<Rightarrow> SignatureKey \<Rightarrow> MessageContext \<Rightarrow> jsval \<Rightarrow> maclog \<Rightarrow> (error + bool) \<times> maclog" where
  "verifyMessage pf k msgCtx headerSpec log =
     (case MessageContext_getSignature pf msgCtx None of
        Inl e \<Rightarrow> (Inl e, log)
      | Inr None \<Rightarrow> (Inl (VerificationError ''signature not present on message''), log)
      | Inr (Some refSig) \<Rightarrow>
          if signatureAlgorithm refSig \<noteq> None
             \<and> Some (key_signatureAlgorithm k) \<noteq> signatureAlgorithm refSig
          then (Inl (VerificationError (''incorrect signature scheme used for key ''
                       @ [CHR 0x27] @ key_id k @ [CHR 0x27])), log)
          else
            (case canonicalString msgCtx (headers refSig) of
               Inl e \<Rightarrow> (Inl e, log)
             | Inr payload \<Rightarrow>
                 (case HmacSignatureKey_verify pf k (utf8_encode payload) (signature refSig) log of
                    (Inl e, log') \<Rightarrow> (Inl e, log')
                  | (Inr signatureVerified, log') \<Rightarrow>
                      if \<not> signatureVerified
                      then (Inl (VerificationError ''signature verification failure''), log')
                      else
                        (case headerList headerSpec ''verify'' of
                           Inl e \<Rightarrow> (Inl e, log')
                         | Inr required \<Rightarrow>
                             (let missingHeaders =
                                    filter (\<lambda>header. header \<notin> set (headers refSig)) required
                              in if length missingHeaders > 0
                                 then (Inl (VerificationError
                                         (''signature missing required headers: ''
                                          @ join_str '', '' missingHeaders)), log')
                                 else if \<not> validCreation refSig
                                 then (Inl (VerificationError ''signature creation in future''), log')
                                 else if \<not> validExpires refSig
                                 then (Inl (VerificationError ''signature has expired''), log')
                                 else (Inr True, log'))))))"

definition signRequest ::
  "platform \<Rightarrow> SignatureKey \<Rightarrow> MessageContext \<Rightarrow> maclog \<Rightarrow> (error + string) \<times> maclog" where
  "signRequest pf k msgCtx log = signMessage pf k msgCtx (getProp (key_options k) ''requestHeaders'') log"

definition signResponse ::
  "platform \<Rightarrow> SignatureKey \<Rightarrow> MessageContext \<Rightarrow> maclog \<Rightarrow> (error + string) \<times> maclog" where
  "signResponse pf k msgCtx log = signMessage pf k msgCtx (getProp (key_options k) ''responseHeaders'') log"

definition verifyRequest ::
  "platform \<Rightarrow> SignatureKey \<Rightarrow> MessageContext \<Rightarrow> maclog \<Rightarrow> (error + bool) \<times> maclog" where
  "verifyRequest pf k msgCtx log = verifyMessage pf k msgCtx (getProp (key_options k) ''requestHeaders'') log"

definition verifyResponse ::
  "platform \<Rightarrow> SignatureKey \<Rightarrow> MessageContext \<Rightarrow> maclog \<Rightarrow> (error + bool) \<times> maclog" where
  "verifyResponse pf k msgCtx log = verifyMessage pf k msgCtx (getProp (key_options k) ''responseHeaders'') log"

section \<open>SignatureKeyManager\<close>

type_synonym KeyLookupFunction = "string \<Rightarrow> jsobj option"

record SignatureKeyManager =
  keyLookup :: KeyLookupFunction
  baseSigningOptions :: jsobj

fun firstDefined :: "jsval list \<Rightarrow> jsval" where
  "firstDefined [] = Undefined"
| "firstDefined (v # vals) = (if v \<noteq> Undefined then v else firstDefined vals)"

definition fixedKeyLookup :: "jsval \<Rightarrow> jsobj \<Rightarrow> KeyLookupFunction" where
  \<comment> \<open>\<open>keyId !== fixedKeyId\<close>, for a string \<open>keyId\<close>\<close>
  "fixedKeyLookup fixedKeyId keyConfig = (\<lambda>kid. if Str kid \<noteq> fixedKeyId then None else Some keyConfig)"

definition DEFAULT_OPTS :: jsobj where
  "DEFAULT_OPTS =
     [(''signatureAlgorithm'', Str ''hs2019''),
      (''requestHeaders'', Obj [(''(request-target)'', Bool True), (''host'', Bool True)]),
      (''responseHeaders'', Obj []),
      (''calculateDigest'', Bool True)]"

definition getKeySigningOptions :: "SignatureKeyManager \<Rightarrow> string \<Rightarrow> jsobj \<Rightarrow> error + jsobj" where
  \<comment> \<open>\<open>Object.fromEntries(Object.entries(base).map(...))\<close>\<close>
  "getKeySigningOptions m kid overrides =
     mapE (\<lambda>(optionKey, v).
             if \<not> hasKey overrides optionKey then Inr (optionKey, v)
             else
               (let effectiveValue = firstDefined [getProp overrides optionKey, v]
                in if effectiveValue = Undefined
                   then Inl (ConfigurationError
                          (''key config for '' @ kid @ '' has unset option '' @ optionKey))
                   else Inr (optionKey, effectiveValue)))
       (baseSigningOptions m)"

definition createDigestFactory :: "jsval \<Rightarrow> error + DigestAlgorithm" where
  \<comment> \<open>the factory is determined by the algorithm, which is what is returned here\<close>
  "createDigestFactory digest =
     (if digest = Str ''SHA-256'' then Inr Digest_SHA256
      else if digest = Str ''SHA-512'' then Inr Digest_SHA512
      else Inl (ConfigurationError (''unsupported digest algorithm '' @ jsToString digest)))"

definition createHmacFactory :: "jsobj \<Rightarrow> error + HmacAlgorithm \<times> Buffer" where
  \<comment> \<open>reading \<open>config.key.type\<close> throws a \<open>TypeError\<close> when \<open>config.key\<close> is \<open>undefined\<close>; a value
      that is not a key object has no \<open>type\<close>\<close>
  "createHmacFactory config =
     (case getProp config ''key'' of
        Undefined \<Rightarrow> Inl (TypeError ''Cannot read properties of undefined (reading 'type')'')
      | Key ko \<Rightarrow>
          if key_type ko \<noteq> ''secret''
          then Inl (ConfigurationError (''HMAC key type requires secret key, got '' @ key_type ko))
          else if getProp config ''algorithm'' = Str ''hmac-sha256'' then Inr (Hmac_SHA256, key_material ko)
          else if getProp config ''algorithm'' = Str ''hmac-sha512'' then Inr (Hmac_SHA512, key_material ko)
          else Inl (ConfigurationError
                 (''Unsupported HMAC algorithm '' @ jsToString (getProp config ''algorithm'')))
      | _ \<Rightarrow> Inl (ConfigurationError ''HMAC key type requires secret key, got undefined''))"

definition createSignatureKey :: "string \<Rightarrow> SignatureAlgorithm \<Rightarrow> jsobj \<Rightarrow> jsobj \<Rightarrow> error + SignatureKey" where
  \<comment> \<open>the scheme of the configuration is passed as the enumeration value that \<open>tryGetKey\<close> has
      established\<close>
  "createSignatureKey id0 scheme config opts =
     bindE (createDigestFactory (getProp config ''digest'')) (\<lambda>digest.
       if truthy (getProp config ''algorithm'') then
         (if getProp config ''algorithm'' \<in> {Str ''hmac-sha256'', Str ''hmac-sha512''}
          then bindE (createHmacFactory config) (\<lambda>(alg, material).
                 Inr \<lparr> key_id = id0, key_signatureAlgorithm = scheme, digestAlgorithm = digest,
                       key_options = opts, algorithm = alg, secret = material \<rparr>)
          else Inl (ConfigurationError
                 (''unsupported signing algorithm '' @ jsToString (getProp config ''algorithm''))))
       else if truthy (getProp config ''keyAlgorithm'')
       then Inl (ConfigurationError ''key pair algorithms are not yet supported'')
       else Inl (ConfigurationError ''got unrecognized key configuration object''))"

definition tryGetKey :: "SignatureKeyManager \<Rightarrow> string \<Rightarrow> error + SignatureKey option" where
  "tryGetKey m kid =
     (case keyLookup m kid of
        None \<Rightarrow> Inr None
      | Some keyConfig \<Rightarrow>
          bindE (getKeySigningOptions m kid keyConfig) (\<lambda>opts.
            if getProp keyConfig ''signatureAlgorithm'' \<noteq> Str ''hs2019'' then
              (if getProp keyConfig ''signatureAlgorithm'' = Str ''hmac-sha256'' then
                 (if \<not> truthy (getProp keyConfig ''algorithm'')
                  then Inl (ConfigurationError ''cannot use hmac-sha256 with public keys'')
                  else bindE (createSignatureKey kid HMAC_SHA256
                                (spread keyConfig [(''digest'', Str ''SHA-256''),
                                                   (''algorithm'', Str ''hmac-sha256'')])
                                opts)
                         (\<lambda>key. Inr (Some key)))
               else Inl (ConfigurationError
                      (''unrecognized signature algorithm requested for key '' @ [CHR 0x27] @ kid
                       @ [CHR 0x27] @ '': '' @ jsToString (getProp keyConfig ''signatureAlgorithm''))))
            else bindE (createSignatureKey kid HS2019 keyConfig opts) (\<lambda>key. Inr (Some key))))"

definition getKey :: "SignatureKeyManager \<Rightarrow> string \<Rightarrow> error + SignatureKey" where
  "getKey m kid =
     bindE (tryGetKey m kid) (\<lambda>key.
       case key of
         None \<Rightarrow> Inl (VerificationError (''key '' @ kid @ '' not found''))
       | Some k \<Rightarrow> Inr k)"

text \<open>
  The parameters of \<open>signatures(config)\<close>: the properties of the configuration object other
  than the lookup function, and the lookup function when there is one.
\<close>

record HttpSigParams =
  config_props :: jsobj
  config_keyLookup :: "KeyLookupFunction option"

definition create :: "HttpSigParams \<Rightarrow> error + SignatureKeyManager" where
  "create config =
     (if getProp (config_props config) ''version'' \<noteq> Str ''draft-cavage-http-signatures-12''
      then Inl (ConfigurationError (''unsupported signature version ''
                  @ jsToString (getProp (config_props config) ''version'')))
      else if truthy (getProp (config_props config) ''keyId'') then
        (let baseStrippedConfig = without (config_props config) [''keyId'', ''digest'']
         in if truthy (getProp baseStrippedConfig ''algorithm'') then
              Inr \<lparr> keyLookup = fixedKeyLookup (getProp (config_props config) ''keyId'')
                                   (config_props config),
                    baseSigningOptions =
                      spread DEFAULT_OPTS (without baseStrippedConfig [''algorithm'', ''key'']) \<rparr>
            else if truthy (getProp baseStrippedConfig ''keyAlgorithm'') then
              Inr \<lparr> keyLookup = fixedKeyLookup (getProp (config_props config) ''keyId'')
                                   (config_props config),
                    baseSigningOptions =
                      spread DEFAULT_OPTS
                        (without baseStrippedConfig
                           [''keyAlgorithm'', ''hashAlgorithm'', ''publicKey'', ''privateKey'']) \<rparr>
            else Inl (ConfigurationError ''unrecognized fixed key configuration''))
      else
        (case config_keyLookup config of
           Some lookup \<Rightarrow>
             Inr \<lparr> keyLookup = lookup,
                   baseSigningOptions = spread DEFAULT_OPTS (config_props config) \<rparr>
         | None \<Rightarrow> Inl (ConfigurationError
                      ''either a fixed {keyId, key} or a key lookup function must be provided'')))"

section \<open>Reference inputs\<close>

definition scenario1 :: MessageContext where
  "scenario1 = \<lparr> message = \<lparr> message_getHeader = map_of
       [(''host'', [''example.org'']),
        (''date'', [''Tue, 07 Jun 2014 20:51:35 GMT'']),
        (''cache-control'', [''max-age=60'', ''must-revalidate'']),
        (''x-emptyheader'', [[]]),
        (''x-example'', [''Example header with some whitespace.''])],
      requestTarget = Some \<lparr> rt_method = ''GET'', rt_path = ''/foo'' \<rparr> \<rparr>,
     options = \<lparr> createdAt = Some ''1402170695'', expiresAt = None \<rparr> \<rparr>"

definition scenario1_headers :: "string list" where
  "scenario1_headers =
     [''(request-target)'', ''(created)'', ''host'', ''date'', ''cache-control'',
      ''x-emptyheader'', ''x-example'']"

definition scenario1_trailing :: MessageContext where
  "scenario1_trailing = \<lparr> message = \<lparr> message_getHeader = map_of
       [(''host'', [''example.org '']),
        (''x-example'', [''Example header with some whitespace.'' @ [CHR 0x09]])],
      requestTarget = None \<rparr>,
     options = \<lparr> createdAt = None, expiresAt = None \<rparr> \<rparr>"

text \<open>
  Two messages with a two-valued \<open>Cache-Control\<close> header, as an adapter hands over a
  repeated header: they differ in the white space that ends the first value.
\<close>

definition scenario_multi :: MessageContext where
  "scenario_multi = \<lparr> message = \<lparr> message_getHeader = map_of
       [(''cache-control'', [''max-age=60'', ''must-revalidate''])],
      requestTarget = None \<rparr>,
     options = \<lparr> createdAt = None, expiresAt = None \<rparr> \<rparr>"

definition scenario_multi_trailing :: MessageContext where
  "scenario_multi_trailing = \<lparr> message = \<lparr> message_getHeader = map_of
       [(''cache-control'', [''max-age=60 '', ''must-revalidate''])],
      requestTarget = None \<rparr>,
     options = \<lparr> createdAt = None, expiresAt = None \<rparr> \<rparr>"

definition scenario_response :: MessageContext where
  "scenario_response = \<lparr> message = \<lparr> message_getHeader = map_of
       [(''content-type'', [''application/json''])],
      requestTarget = None \<rparr>,
     options = \<lparr> createdAt = None, expiresAt = None \<rparr> \<rparr>"

text \<open>
  A platform for the evaluated examples.  Its hash and its MAC are stand-ins with the output
  lengths of SHA-256 and SHA-512 (the length of the input, then its last bytes and the key);
  its \<open>parseFloat\<close> is exact on integer literals and not finite elsewhere.  Every theorem
  below that is not such an example holds for all platforms.
\<close>

definition standin_platform :: platform where
  "standin_platform =
     \<lparr> date_now = 1000000000000,
       parseFloat_floor_ms =
         (\<lambda>s. if s \<noteq> [] \<and> (\<forall>c\<in>set s. isDigit c) then Some (digitsValue s * 1000) else None),
       createHash =
         (\<lambda>name buf. of_nat (length buf)
            # take (if name = ''sha512'' then 63 else 31) (rev buf @ replicate 64 0)),
       createHmac =
         (\<lambda>name key buf. of_nat (length buf)
            # take (if name = ''sha512'' then 63 else 31) (rev buf @ key @ replicate 64 0)) \<rparr>"

definition example_key :: SignatureKey where
  "example_key =
     \<lparr> key_id = ''test'', key_signatureAlgorithm = HS2019, digestAlgorithm = Digest_SHA256,
       key_options =
         [(''requestHeaders'', Obj [(''(request-target)'', Bool True), (''host'', Bool True)]),
          (''responseHeaders'', Obj []),
          (''calculateDigest'', Bool True)],
       algorithm = Hmac_SHA256, secret = [1, 2, 3, 4] \<rparr>"

definition example_request :: MessageContext where
  "example_request =
     \<lparr> message = \<lparr> message_getHeader = map_of
          [(''content-type'', [''application/json'']),
           (''host'', [''foobar.com'']),
           (''date'', [''Tue, 07 Jun 2014 20:51:35 GMT'']),
           (''digest'', [''SHA-256=Qm/ATwS/j9tYMdw3u7bc9w9jo34FpoxupfY+ha5Xk3Y=''])],
          requestTarget = Some \<lparr> rt_method = ''POST'', rt_path = ''/'' \<rparr> \<rparr>,
       options = \<lparr> createdAt = None, expiresAt = None \<rparr> \<rparr>"

definition withSignature :: "MessageContext \<Rightarrow> string \<Rightarrow> MessageContext" where
  \<comment> \<open>the message with its \<open>Signature\<close> header set\<close>
  "withSignature ctx s =
     ctx \<lparr> message := (message ctx)
             \<lparr> message_getHeader := (message_getHeader (message ctx))(''signature'' \<mapsto> [s]) \<rparr> \<rparr>"

text \<open>
  A manager configuration with a lookup function and \<open>calculateDigest: undefined\<close>, whose
  key configuration carries no option; and a key configuration that carries an override
  under \<open>options\<close>, where \<open>types.ts\<close> declares the per-key overrides.
\<close>

definition example_keyConfig :: jsobj where
  "example_keyConfig =
     [(''signatureAlgorithm'', Str ''hs2019''), (''digest'', Str ''SHA-256''),
      (''algorithm'', Str ''hmac-sha256''),
      (''key'', Key \<lparr> key_type = ''secret'', key_material = [1, 2, 3, 4] \<rparr>)]"

definition example_config :: HttpSigParams where
  "example_config =
     \<lparr> config_props = [(''version'', Str ''draft-cavage-http-signatures-12''),
                       (''calculateDigest'', Undefined)],
       config_keyLookup =
         Some (\<lambda>keyId. if keyId = ''test'' then Some example_keyConfig else None) \<rparr>"

definition example_config_nested :: HttpSigParams where
  "example_config_nested =
     \<lparr> config_props = [(''version'', Str ''draft-cavage-http-signatures-12'')],
       config_keyLookup =
         Some (\<lambda>keyId. if keyId = ''test''
                        then Some (example_keyConfig
                                   @ [(''options'', Obj [(''calculateDigest'', Bool False)])])
                        else None) \<rparr>"


section \<open>The canonical string\<close>

lemma toLowerChar_idem: "toLowerChar (toLowerChar c) = toLowerChar c"
  by (auto simp: toLowerChar_def Let_def)

lemma toLowerCase_idem: "toLowerCase (toLowerCase s) = toLowerCase s"
  by (simp add: toLowerCase_def toLowerChar_idem)

lemma getHeader_lower: "getHeader ctx (toLowerCase h) = getHeader ctx h"
  by (simp add: getHeader_def toLowerCase_idem)

lemma mapE_all_Inr: "\<forall>x\<in>set xs. f x = Inr (g x) \<Longrightarrow> mapE f xs = Inr (map g xs)"
  by (induction xs) auto

lemma mapE_first_Inl:
  "\<forall>x\<in>set pre. \<exists>y. f x = Inr y \<Longrightarrow> f h = Inl e \<Longrightarrow> mapE f (pre @ h # post) = Inl e"
  by (induction pre) auto

lemma trimEnd_append:
  "trimEnd (p @ j) = (if \<forall>c\<in>set j. isWhiteSpace c then trimEnd p else p @ trimEnd j)"
  by (simp add: trimEnd_def dropWhile_append)

lemma colon_not_ws: "\<not> isWhiteSpace (CHR '':'')"
  by (simp add: isWhiteSpace_def)

lemma trimEnd_line:
  "trimEnd (n @ '': '' @ j) =
     (if \<forall>c\<in>set j. isWhiteSpace c then n @ '':'' else n @ '': '' @ trimEnd j)"
proof -
  have b: "trimEnd (n @ '': '') = n @ '':''"
    by (simp add: trimEnd_def isWhiteSpace_def)
  have "trimEnd ((n @ '': '') @ j) =
          (if \<forall>c\<in>set j. isWhiteSpace c then trimEnd (n @ '': '') else (n @ '': '') @ trimEnd j)"
    by (rule trimEnd_append)
  with b show ?thesis by simp
qed

lemma trimEnd_last: "trimEnd s \<noteq> [] \<Longrightarrow> \<not> isWhiteSpace (last (trimEnd s))"
proof -
  assume ne: "trimEnd s \<noteq> []"
  then have d: "dropWhile isWhiteSpace (rev s) \<noteq> []" by (simp add: trimEnd_def)
  then have "\<not> isWhiteSpace (hd (dropWhile isWhiteSpace (rev s)))" by (rule hd_dropWhile)
  then show ?thesis using d by (simp add: trimEnd_def last_rev)
qed

lemma join_str_last:
  "xs \<noteq> [] \<Longrightarrow> last xs \<noteq> [] \<Longrightarrow>
     join_str sep xs \<noteq> [] \<and> last (join_str sep xs) = last (last xs)"
  by (induction sep xs rule: join_str.induct) auto

lemma canonicalLine_Some:
  "getHeader ctx h = Inr (Some vs) \<Longrightarrow>
     canonicalLine ctx h = Inr (trimEnd (toLowerCase h @ '': '' @ join_str '', '' vs))"
  by (simp add: canonicalLine_def getHeader_lower)

lemma canonicalLine_None:
  "getHeader ctx h = Inr None \<Longrightarrow> canonicalLine ctx h = Inl (VerificationError (missingHeaderMsg h))"
  by (simp add: canonicalLine_def getHeader_lower)

lemma canonicalLine_Inl:
  "getHeader ctx h = Inl e \<Longrightarrow> canonicalLine ctx h = Inl e"
  by (simp add: canonicalLine_def getHeader_lower)

lemma canonicalString_all_Some:
  assumes "\<forall>h\<in>set H. getHeader ctx h = Inr (Some (vals h))"
  shows "canonicalString ctx H =
           Inr (join_str [CHR 0x0A]
                  (map (\<lambda>h. trimEnd (toLowerCase h @ '': '' @ join_str '', '' (vals h))) H))"
proof -
  have "\<forall>h\<in>set H. canonicalLine ctx h =
          Inr (trimEnd (toLowerCase h @ '': '' @ join_str '', '' (vals h)))"
    using assms by (simp add: canonicalLine_Some)
  then have "mapE (canonicalLine ctx) H =
          Inr (map (\<lambda>h. trimEnd (toLowerCase h @ '': '' @ join_str '', '' (vals h))) H)"
    by (rule mapE_all_Inr)
  then show ?thesis by (simp add: canonicalString_def)
qed

lemma line_nonempty: "trimEnd (n @ '': '' @ j) \<noteq> []"
  by (subst trimEnd_line) simp

lemma lines_no_trailing_ws:
  "H \<noteq> [] \<Longrightarrow>
   join_str sep (map (\<lambda>h. trimEnd (f h @ '': '' @ g h)) H) \<noteq> [] \<and>
   \<not> isWhiteSpace (last (join_str sep (map (\<lambda>h. trimEnd (f h @ '': '' @ g h)) H)))"
proof -
  assume ne: "H \<noteq> []"
  let ?ls = "map (\<lambda>h. trimEnd (f h @ '': '' @ g h)) H"
  have l: "last ?ls = trimEnd (f (last H) @ '': '' @ g (last H))"
    using ne by (simp add: last_map)
  have lne: "last ?ls \<noteq> []" unfolding l by (rule line_nonempty)
  have "join_str sep ?ls \<noteq> [] \<and> last (join_str sep ?ls) = last (last ?ls)"
    using ne lne by (intro join_str_last) simp_all
  moreover have "\<not> isWhiteSpace (last (last ?ls))"
    unfolding l by (rule trimEnd_last) (rule line_nonempty)
  ultimately show ?thesis by simp
qed

text \<open>
  Claim C1, as the code has it.  When every name of the list \<open>H\<close> has values, the canonical
  string is one line per name, in the order of \<open>H\<close>, joined by a single line feed; each
  line is the lower-cased name, a colon, a space and the values joined by comma and space, with
  the white space at the end of the line removed.  The result never ends in a line feed.  On
  the reference input of scenario 1 it is the seven-line reference string.
\<close>

theorem canonicalString_lines:
  assumes "\<forall>h\<in>set H. getHeader ctx h = Inr (Some (vals h))"
  shows "canonicalString ctx H =
           Inr (join_str [CHR 0x0A]
                  (map (\<lambda>h. trimEnd (toLowerCase h @ '': '' @ join_str '', '' (vals h))) H))
       \<and> (\<forall>r. canonicalString ctx H = Inr r \<longrightarrow> \<not> endsWith r [CHR 0x0A])
       \<and> canonicalString scenario1 scenario1_headers =
           Inr (join_str [CHR 0x0A]
                  [''(request-target): get /foo'',
                   ''(created): 1402170695'',
                   ''host: example.org'',
                   ''date: Tue, 07 Jun 2014 20:51:35 GMT'',
                   ''cache-control: max-age=60, must-revalidate'',
                   ''x-emptyheader:'',
                   ''x-example: Example header with some whitespace.''])"
proof (intro conjI allI impI)
  show eq: "canonicalString ctx H =
           Inr (join_str [CHR 0x0A]
                  (map (\<lambda>h. trimEnd (toLowerCase h @ '': '' @ join_str '', '' (vals h))) H))"
    using assms by (rule canonicalString_all_Some)
  show "\<not> endsWith r [CHR 0x0A]" if "canonicalString ctx H = Inr r" for r
  proof (cases "H = []")
    case True
    with that show ?thesis by (simp add: canonicalString_def endsWith_def)
  next
    case False
    from lines_no_trailing_ws [OF False, of "[CHR 0x0A]" toLowerCase "\<lambda>h. join_str '', '' (vals h)"]
    have "r \<noteq> [] \<and> \<not> isWhiteSpace (last r)" using eq that by simp
    then have "last r \<noteq> CHR 0x0A" by (auto simp: isWhiteSpace_def)
    moreover have "drop (length r - Suc 0) r = [last r]" if "r \<noteq> []" for r :: string
      using that by (induction r) (auto simp: drop_Cons')
    ultimately show ?thesis using \<open>r \<noteq> [] \<and> \<not> isWhiteSpace (last r)\<close>
      by (auto simp: endsWith_def)
  qed
  show "canonicalString scenario1 scenario1_headers =
           Inr (join_str [CHR 0x0A]
                  [''(request-target): get /foo'',
                   ''(created): 1402170695'',
                   ''host: example.org'',
                   ''date: Tue, 07 Jun 2014 20:51:35 GMT'',
                   ''cache-control: max-age=60, must-revalidate'',
                   ''x-emptyheader:'',
                   ''x-example: Example header with some whitespace.''])"
    by code_simp
qed

text \<open>The theorem of C1 at three headers of the scenario-1 message, with mixed-case names.\<close>

theorem canonicalString_lines_witness:
  "getHeader scenario1 ''Host'' = Inr (Some [''example.org''])
   \<and> getHeader scenario1 ''Cache-Control'' = Inr (Some [''max-age=60'', ''must-revalidate''])
   \<and> getHeader scenario1 ''x-emptyheader'' = Inr (Some [[]])
   \<and> canonicalString scenario1 [''Host'', ''Cache-Control'', ''x-emptyheader''] =
       Inr (join_str [CHR 0x0A]
              [''host: example.org'', ''cache-control: max-age=60, must-revalidate'',
               ''x-emptyheader:''])"
proof -
  let ?vals = "\<lambda>h. the (message_getHeader (message scenario1) (toLowerCase h))"
  have g: "getHeader scenario1 ''Host'' = Inr (Some [''example.org''])
     \<and> getHeader scenario1 ''Cache-Control'' = Inr (Some [''max-age=60'', ''must-revalidate''])
     \<and> getHeader scenario1 ''x-emptyheader'' = Inr (Some [[]])"
    by code_simp
  have h: "\<forall>h\<in>set [''Host'', ''Cache-Control'', ''x-emptyheader''].
      getHeader scenario1 h = Inr (Some (?vals h))"
    by code_simp
  have "canonicalString scenario1 [''Host'', ''Cache-Control'', ''x-emptyheader''] =
       Inr (join_str [CHR 0x0A]
              (map (\<lambda>h. trimEnd (toLowerCase h @ '': '' @ join_str '', '' (?vals h)))
                 [''Host'', ''Cache-Control'', ''x-emptyheader'']))"
    using canonicalString_lines [OF h] by blast
  also have "\<dots> = Inr (join_str [CHR 0x0A]
              [''host: example.org'', ''cache-control: max-age=60, must-revalidate'',
               ''x-emptyheader:''])"
    by code_simp
  finally show ?thesis using g by blast
qed

text \<open>
  Claim C1 as stated (each line is name, colon, space, joined values) fails where the joined
  value is empty, and where it ends in white space: the line is shorter than the rule says.
\<close>

theorem canonicalString_untrimmed_counterexample:
  "getHeader scenario1 ''x-emptyheader'' = Inr (Some [[]])
   \<and> canonicalString scenario1 [''x-emptyheader''] = Inr ''x-emptyheader:''
   \<and> canonicalString scenario1 [''x-emptyheader''] \<noteq>
        Inr (toLowerCase ''x-emptyheader'' @ '': '' @ join_str '', '' [[]])
   \<and> getHeader scenario1_trailing ''host'' = Inr (Some [''example.org ''])
   \<and> canonicalString scenario1_trailing [''host''] = Inr ''host: example.org''
   \<and> canonicalString scenario1_trailing [''host''] \<noteq>
        Inr (toLowerCase ''host'' @ '': '' @ join_str '', '' [''example.org ''])"
  by code_simp

lemma getHeader_None_iff:
  "getHeader ctx h = Inr None \<longleftrightarrow>
     toLowerCase h \<noteq> ''(request-target)'' \<and>
     (if toLowerCase h = ''(created)'' then \<not> truthyStr (createdAt (options ctx))
      else if toLowerCase h = ''(expires)'' then \<not> truthyStr (expiresAt (options ctx))
      else message_getHeader (message ctx) (toLowerCase h) = None)"
  by (auto simp: getHeader_def getRequestTarget_def Let_def split: option.splits)

lemma getHeader_request_target_response:
  "toLowerCase h = ''(request-target)'' \<Longrightarrow> requestTarget (message ctx) = None \<Longrightarrow>
     getHeader ctx h =
       Inl (ConfigurationError ''BUG: attempted to sign/verify (request-target) for response'')"
  by (simp add: getHeader_def getRequestTarget_def)

lemma canonicalString_first_Inl:
  assumes "\<forall>x\<in>set pre. \<exists>vs. getHeader ctx x = Inr (Some vs)"
      and "canonicalLine ctx h = Inl e"
  shows "canonicalString ctx (pre @ h # post) = Inl e"
proof -
  have "\<forall>x\<in>set pre. \<exists>y. canonicalLine ctx x = Inr y"
    using assms(1) by (auto simp: canonicalLine_Some)
  then have "mapE (canonicalLine ctx) (pre @ h # post) = Inl e"
    using assms(2) by (rule mapE_first_Inl)
  then show ?thesis by (simp add: canonicalString_def)
qed

text \<open>
  Claim C9, as the code has it.  Let \<open>h\<close> be the first name of the list for which the message
  context has no value.  If the lookup of \<open>h\<close> yields \<open>undefined\<close>, the canonical string fails
  with the verification error that names \<open>h\<close> as given.  If \<open>h\<close> is \<open>(request-target)\<close> and the
  message has no request target, it fails with a configuration error instead.  The last
  conjunct says when a lookup yields \<open>undefined\<close>.
\<close>

theorem canonicalString_missing_header:
  assumes "\<forall>x\<in>set pre. \<exists>vs. getHeader ctx x = Inr (Some vs)"
  shows "(getHeader ctx h = Inr None \<longrightarrow>
            canonicalString ctx (pre @ h # post) = Inl (VerificationError (missingHeaderMsg h)))
       \<and> (toLowerCase h = ''(request-target)'' \<and> requestTarget (message ctx) = None \<longrightarrow>
            canonicalString ctx (pre @ h # post) =
              Inl (ConfigurationError ''BUG: attempted to sign/verify (request-target) for response''))
       \<and> (getHeader ctx h = Inr None \<longleftrightarrow>
            toLowerCase h \<noteq> ''(request-target)'' \<and>
            (if toLowerCase h = ''(created)'' then \<not> truthyStr (createdAt (options ctx))
             else if toLowerCase h = ''(expires)'' then \<not> truthyStr (expiresAt (options ctx))
             else message_getHeader (message ctx) (toLowerCase h) = None))"
proof (intro conjI impI)
  show "canonicalString ctx (pre @ h # post) = Inl (VerificationError (missingHeaderMsg h))"
    if "getHeader ctx h = Inr None"
    using assms canonicalLine_None [OF that] by (rule canonicalString_first_Inl)
  show "canonicalString ctx (pre @ h # post) =
          Inl (ConfigurationError ''BUG: attempted to sign/verify (request-target) for response'')"
    if "toLowerCase h = ''(request-target)'' \<and> requestTarget (message ctx) = None"
  proof -
    from that have "getHeader ctx h =
        Inl (ConfigurationError ''BUG: attempted to sign/verify (request-target) for response'')"
      by (simp add: getHeader_request_target_response)
    then have "canonicalLine ctx h =
        Inl (ConfigurationError ''BUG: attempted to sign/verify (request-target) for response'')"
      by (rule canonicalLine_Inl)
    with assms show ?thesis by (rule canonicalString_first_Inl)
  qed
  show "getHeader ctx h = Inr None \<longleftrightarrow>
            toLowerCase h \<noteq> ''(request-target)'' \<and>
            (if toLowerCase h = ''(created)'' then \<not> truthyStr (createdAt (options ctx))
             else if toLowerCase h = ''(expires)'' then \<not> truthyStr (expiresAt (options ctx))
             else message_getHeader (message ctx) (toLowerCase h) = None)"
    by (rule getHeader_None_iff)
qed

text \<open>The theorem of C9 on the scenario-1 request and on a response.\<close>

theorem canonicalString_missing_header_witness:
  "getHeader scenario1 ''Host'' = Inr (Some [''example.org''])
   \<and> getHeader scenario1 ''(request-target)'' = Inr (Some [''get /foo''])
   \<and> getHeader scenario1 ''(Expires)'' = Inr None
   \<and> canonicalString scenario1 [''Host'', ''(request-target)'', ''(Expires)'', ''date''] =
         Inl (VerificationError
           (''attempted to sign/verify missing header '' @ [CHR 0x27] @ ''(Expires)'' @ [CHR 0x27]))
   \<and> getHeader scenario_response ''Content-Type'' = Inr (Some [''application/json''])
   \<and> toLowerCase ''(Request-Target)'' = ''(request-target)''
   \<and> requestTarget (message scenario_response) = None
   \<and> canonicalString scenario_response [''Content-Type'', ''(Request-Target)'', ''host''] =
         Inl (ConfigurationError ''BUG: attempted to sign/verify (request-target) for response'')"
proof -
  have g1: "getHeader scenario1 ''Host'' = Inr (Some [''example.org''])" by code_simp
  have g2: "getHeader scenario1 ''(request-target)'' = Inr (Some [''get /foo''])" by code_simp
  have h1: "\<forall>x\<in>set [''Host'', ''(request-target)'']. \<exists>vs. getHeader scenario1 x = Inr (Some vs)"
    using g1 g2 by simp
  have n1: "getHeader scenario1 ''(Expires)'' = Inr None" by code_simp
  have g3: "getHeader scenario_response ''Content-Type'' = Inr (Some [''application/json''])"
    by code_simp
  have h2: "\<forall>x\<in>set [''Content-Type'']. \<exists>vs. getHeader scenario_response x = Inr (Some vs)"
    using g3 by simp
  have n2: "toLowerCase ''(Request-Target)'' = ''(request-target)''
            \<and> requestTarget (message scenario_response) = None"
    by code_simp
  have a: "canonicalString scenario1 ([''Host'', ''(request-target)''] @ ''(Expires)'' # [''date'']) =
         Inl (VerificationError (missingHeaderMsg ''(Expires)''))"
    using canonicalString_missing_header [OF h1, of "''(Expires)''" "[''date'']"] n1 by blast
  have b: "canonicalString scenario_response ([''Content-Type''] @ ''(Request-Target)'' # [''host'']) =
         Inl (ConfigurationError ''BUG: attempted to sign/verify (request-target) for response'')"
    using canonicalString_missing_header [OF h2, of "''(Request-Target)''" "[''host'']"] n2 by blast
  show ?thesis using g1 g2 n1 g3 n2 a b by (simp add: missingHeaderMsg_def)
qed

text \<open>
  Claim C9 as stated fails for \<open>(request-target)\<close> on a message without a request target:
  the error is a configuration error, not a verification error.
\<close>

theorem canonicalString_request_target_counterexample:
  "requestTarget (message scenario_response) = None
   \<and> canonicalString scenario_response [''(request-target)''] =
         Inl (ConfigurationError ''BUG: attempted to sign/verify (request-target) for response'')
   \<and> canonicalString scenario_response [''(request-target)''] \<noteq>
         Inl (VerificationError (missingHeaderMsg ''(request-target)''))"
  by code_simp

text \<open>
  Claim C10, as the code has it.  The values of a header are joined with a comma and a space
  first and the line is right-trimmed afterwards, for every emitted line: a line whose joined value is
  all white space is the name and a colon, any other line carries the joined value without
  its trailing white space.  Hence two messages whose joined values agree once their
  trailing white space is removed have the same canonical string.  White space that ends a
  value other than the last one of its header is inside the joined value and is kept.
\<close>

theorem canonicalString_right_trim:
  assumes "\<forall>h\<in>set H. getHeader ctx1 h = Inr (Some (vs1 h))"
      and "\<forall>h\<in>set H. getHeader ctx2 h = Inr (Some (vs2 h))"
      and "\<forall>h\<in>set H. trimEnd (join_str '', '' (vs1 h)) = trimEnd (join_str '', '' (vs2 h))"
  shows "canonicalString ctx1 H =
           Inr (join_str [CHR 0x0A]
                  (map (\<lambda>h. if \<forall>c\<in>set (join_str '', '' (vs1 h)). isWhiteSpace c
                            then toLowerCase h @ '':''
                            else toLowerCase h @ '': '' @ trimEnd (join_str '', '' (vs1 h))) H))
       \<and> canonicalString ctx1 H = canonicalString ctx2 H"
proof -
  have ws: "(\<forall>c\<in>set s. isWhiteSpace c) \<longleftrightarrow> trimEnd s = []" for s
    by (simp add: trimEnd_def dropWhile_eq_Nil_conv)
  have l1: "canonicalString ctx1 H =
           Inr (join_str [CHR 0x0A]
                  (map (\<lambda>h. trimEnd (toLowerCase h @ '': '' @ join_str '', '' (vs1 h))) H))"
    using assms(1) by (rule canonicalString_all_Some)
  have l2: "canonicalString ctx2 H =
           Inr (join_str [CHR 0x0A]
                  (map (\<lambda>h. trimEnd (toLowerCase h @ '': '' @ join_str '', '' (vs2 h))) H))"
    using assms(2) by (rule canonicalString_all_Some)
  have m1: "map (\<lambda>h. trimEnd (toLowerCase h @ '': '' @ join_str '', '' (vs1 h))) H =
        map (\<lambda>h. if \<forall>c\<in>set (join_str '', '' (vs1 h)). isWhiteSpace c
                            then toLowerCase h @ '':''
                            else toLowerCase h @ '': '' @ trimEnd (join_str '', '' (vs1 h))) H"
    by (rule map_cong [OF refl]) (rule trimEnd_line)
  have m2: "map (\<lambda>h. trimEnd (toLowerCase h @ '': '' @ join_str '', '' (vs2 h))) H =
        map (\<lambda>h. trimEnd (toLowerCase h @ '': '' @ join_str '', '' (vs1 h))) H"
  proof (rule map_cong [OF refl])
    fix h assume "h \<in> set H"
    then have e: "trimEnd (join_str '', '' (vs1 h)) = trimEnd (join_str '', '' (vs2 h))"
      using assms(3) by blast
    show "trimEnd (toLowerCase h @ '': '' @ join_str '', '' (vs2 h)) =
          trimEnd (toLowerCase h @ '': '' @ join_str '', '' (vs1 h))"
      unfolding trimEnd_line ws e ..
  qed
  show ?thesis by (simp only: l1 l2 m2 m1)
qed

text \<open>The theorem of C10 on the scenario-1 message and a copy with trailing white space.\<close>

theorem canonicalString_right_trim_witness:
  "getHeader scenario1 ''Host'' = Inr (Some [''example.org''])
   \<and> getHeader scenario1_trailing ''Host'' = Inr (Some [''example.org ''])
   \<and> getHeader scenario1 ''x-example'' = Inr (Some [''Example header with some whitespace.''])
   \<and> getHeader scenario1_trailing ''x-example'' =
         Inr (Some [''Example header with some whitespace.'' @ [CHR 0x09]])
   \<and> canonicalString scenario1_trailing [''Host'', ''x-example''] =
       Inr (join_str [CHR 0x0A]
              [''host: example.org'', ''x-example: Example header with some whitespace.''])
   \<and> canonicalString scenario1_trailing [''Host'', ''x-example''] =
       canonicalString scenario1 [''Host'', ''x-example'']"
proof -
  let ?H = "[''Host'', ''x-example'']"
  let ?v1 = "\<lambda>h. the (message_getHeader (message scenario1_trailing) (toLowerCase h))"
  let ?v2 = "\<lambda>h. the (message_getHeader (message scenario1) (toLowerCase h))"
  have g: "getHeader scenario1 ''Host'' = Inr (Some [''example.org''])
   \<and> getHeader scenario1_trailing ''Host'' = Inr (Some [''example.org ''])
   \<and> getHeader scenario1 ''x-example'' = Inr (Some [''Example header with some whitespace.''])
   \<and> getHeader scenario1_trailing ''x-example'' =
         Inr (Some [''Example header with some whitespace.'' @ [CHR 0x09]])"
    by code_simp
  have h1: "\<forall>h\<in>set ?H. getHeader scenario1_trailing h = Inr (Some (?v1 h))" by code_simp
  have h2: "\<forall>h\<in>set ?H. getHeader scenario1 h = Inr (Some (?v2 h))" by code_simp
  have h3: "\<forall>h\<in>set ?H. trimEnd (join_str '', '' (?v1 h)) = trimEnd (join_str '', '' (?v2 h))"
    by code_simp
  note t = canonicalString_right_trim [OF h1 h2 h3]
  have "canonicalString scenario1_trailing ?H = canonicalString scenario1 ?H"
    using t by blast
  moreover have "canonicalString scenario1_trailing ?H =
       Inr (join_str [CHR 0x0A]
              [''host: example.org'', ''x-example: Example header with some whitespace.''])"
    by code_simp
  ultimately show ?thesis using g by blast
qed

text \<open>
  Claim C10 as stated fails for a header with several values: the two messages below differ
  only in the white space that ends the first value of \<open>Cache-Control\<close>, and their
  canonical strings differ, because only the end of the joined line is trimmed.
\<close>

theorem canonicalString_inner_space_counterexample:
  "getHeader scenario_multi ''Cache-Control'' = Inr (Some [''max-age=60'', ''must-revalidate''])
   \<and> getHeader scenario_multi_trailing ''Cache-Control'' =
         Inr (Some [''max-age=60 '', ''must-revalidate''])
   \<and> map trimEnd [''max-age=60 '', ''must-revalidate''] = [''max-age=60'', ''must-revalidate'']
   \<and> canonicalString scenario_multi [''Cache-Control''] =
         Inr ''cache-control: max-age=60, must-revalidate''
   \<and> canonicalString scenario_multi_trailing [''Cache-Control''] =
         Inr ''cache-control: max-age=60 , must-revalidate''
   \<and> canonicalString scenario_multi_trailing [''Cache-Control''] \<noteq>
         canonicalString scenario_multi [''Cache-Control'']"
  by code_simp

section \<open>The parser is strict\<close>

lemma bindE_Inr_iff: "bindE r f = Inr y \<longleftrightarrow> (\<exists>x. r = Inr x \<and> f x = Inr y)"
  by (cases r) auto

lemma ove_bindE:
  "onlyVerificationError r \<Longrightarrow> (\<And>x. onlyVerificationError (f x)) \<Longrightarrow> onlyVerificationError (bindE r f)"
  by (cases r) (auto simp: onlyVerificationError_def)

lemma ove_parseStringField: "onlyVerificationError (parseStringField v)"
  by (simp add: onlyVerificationError_def parseStringField_def)

lemma ove_parseIntField: "onlyVerificationError (parseIntField v)"
  by (simp add: onlyVerificationError_def parseIntField_def)

lemma ove_parseDecimalField: "onlyVerificationError (parseDecimalField v)"
  by (simp add: onlyVerificationError_def parseDecimalField_def Let_def)

lemma ove_pairsToMap_loop: "onlyVerificationError (pairsToMap_loop out ps)"
  by (induction ps arbitrary: out)
     (auto simp: onlyVerificationError_def Let_def split: option.splits)

lemma ove_if:
  "(c \<Longrightarrow> onlyVerificationError a) \<Longrightarrow> (\<not> c \<Longrightarrow> onlyVerificationError b) \<Longrightarrow>
     onlyVerificationError (if c then a else b)"
  by simp

lemma ove_Inr: "onlyVerificationError (Inr x)"
  by (simp add: onlyVerificationError_def)

lemma ove_Inl: "onlyVerificationError (Inl (VerificationError m))"
  by (simp add: onlyVerificationError_def)

lemma ove_getKeyId: "onlyVerificationError (getKeyId fm)"
  using ove_parseStringField by (simp add: getKeyId_def onlyVerificationError_def)

lemma ove_getSignature: "onlyVerificationError (getSignature fm)"
  unfolding getSignature_def Let_def
  by (intro ove_if ove_bindE ove_parseStringField ove_Inr ove_Inl)

lemma ove_getHeaders: "onlyVerificationError (getHeaders fm)"
  unfolding getHeaders_def Let_def
  by (intro ove_if ove_bindE ove_parseStringField ove_Inr ove_Inl)

lemma ove_getSignatureAlgorithm: "onlyVerificationError (getSignatureAlgorithm fm)"
  unfolding getSignatureAlgorithm_def
  by (intro ove_if ove_bindE ove_parseStringField ove_Inr)
     (simp add: onlyVerificationError_def split: option.splits)

lemma ove_getCreated: "onlyVerificationError (getCreated fm)"
  unfolding getCreated_def
  by (intro ove_if ove_bindE ove_parseIntField ove_Inr)

lemma ove_getExpires: "onlyVerificationError (getExpires pf fm)"
  unfolding getExpires_def
  by (intro ove_if ove_bindE ove_parseDecimalField ove_Inr)

lemma ove_fromHeader: "onlyVerificationError (fromHeader pf h at)"
  unfolding fromHeader_def pairsToMap_def
  by (intro ove_bindE ove_pairsToMap_loop ove_getKeyId ove_getSignature ove_getHeaders
        ove_getSignatureAlgorithm ove_getCreated ove_getExpires)
     (simp add: onlyVerificationError_def)

lemma fromHeader_fails_iff:
  "isVerificationError (fromHeader pf h at) \<longleftrightarrow> (\<forall>sg. fromHeader pf h at \<noteq> Inr sg)"
  using ove_fromHeader [of pf h at]
  by (cases "fromHeader pf h at") (auto simp: onlyVerificationError_def isVerificationError_def)

lemma fromHeader_Inr_parts:
  assumes "fromHeader pf h at = Inr sg"
  shows "\<exists>fm. pairsToMap_loop Map.empty (split_chr (CHR '','') h) = Inr fm
           \<and> (\<exists>x. getKeyId fm = Inr x) \<and> (\<exists>x. getSignature fm = Inr x)
           \<and> (\<exists>x. getHeaders fm = Inr x) \<and> (\<exists>x. getSignatureAlgorithm fm = Inr x)
           \<and> (\<exists>x. getCreated fm = Inr x) \<and> (\<exists>x. getExpires pf fm = Inr x)"
  using assms unfolding fromHeader_def pairsToMap_def bindE_Inr_iff by blast

lemma pairsToMap_loop_mono:
  "pairsToMap_loop out ps = Inr m \<Longrightarrow> out k = Some v \<Longrightarrow> m k = Some v"
proof (induction ps arbitrary: out)
  case Nil
  then show ?case by simp
next
  case (Cons p ps)
  from Cons.prems(1) obtain i where i: "indexOf p (CHR ''='') = Some i"
    by (auto split: option.splits)
  with Cons.prems(1) have none: "out (take i p) = None"
    and rec: "pairsToMap_loop (out(take i p \<mapsto> drop (Suc i) p)) ps = Inr m"
    by (auto simp: Let_def split: if_splits)
  from none Cons.prems(2) have "take i p \<noteq> k" by auto
  then have "(out(take i p \<mapsto> drop (Suc i) p)) k = Some v"
    using Cons.prems(2) by simp
  with rec show ?case by (rule Cons.IH)
qed

lemma pairsToMap_loop_member:
  "pairsToMap_loop out ps = Inr m \<Longrightarrow> p \<in> set ps \<Longrightarrow>
     \<exists>i. indexOf p (CHR ''='') = Some i \<and> take i p \<noteq> [] \<and> drop (Suc i) p \<noteq> []
       \<and> (\<forall>c\<in>set (take i p). \<not> isWhiteSpace c) \<and> m (take i p) = Some (drop (Suc i) p)"
proof (induction ps arbitrary: out)
  case Nil
  then show ?case by simp
next
  case (Cons q ps)
  from Cons.prems(1) obtain i where i: "indexOf q (CHR ''='') = Some i"
    by (auto split: option.splits)
  with Cons.prems(1) have ok: "take i q \<noteq> []" "drop (Suc i) q \<noteq> []"
    "\<forall>c\<in>set (take i q). \<not> isWhiteSpace c" "out (take i q) = None"
    and rec: "pairsToMap_loop (out(take i q \<mapsto> drop (Suc i) q)) ps = Inr m"
    by (auto simp: Let_def split: if_splits)
  show ?case
  proof (cases "p = q")
    case True
    have "m (take i q) = Some (drop (Suc i) q)"
      using pairsToMap_loop_mono [OF rec, of "take i q"] by simp
    with True i ok show ?thesis by blast
  next
    case False
    with Cons.prems(2) have "p \<in> set ps" by simp
    from Cons.IH [OF rec this] show ?thesis .
  qed
qed

lemma indexOf_eq_field: "CHR ''='' \<notin> set k \<Longrightarrow> indexOf (k @ ''='' @ v) (CHR ''='') = Some (length k)"
proof -
  assume "CHR ''='' \<notin> set k"
  then have "takeWhile (\<lambda>x. x \<noteq> CHR ''='') (k @ ''='' @ v) = k"
    by (induction k) auto
  then show ?thesis by (simp add: indexOf_def)
qed

lemma field_lookup:
  assumes "pairsToMap_loop Map.empty (split_chr (CHR '','') h) = Inr fm"
      and "k @ ''='' @ v \<in> set (split_chr (CHR '','') h)"
      and "CHR ''='' \<notin> set k"
  shows "fm k = Some v \<and> v \<noteq> []"
  using pairsToMap_loop_member [OF assms(1,2)] indexOf_eq_field [OF assms(3), of v] by auto

lemma split_chr_ne: "split_chr c s \<noteq> []"
  by (induction s) (auto split: list.splits)

lemma split_chr_append: "split_chr c (a @ c # b) = split_chr c a @ split_chr c b"
  by (induction a) (auto split: list.splits simp: split_chr_ne)

lemma split_chr_hd: "x \<noteq> c \<Longrightarrow> \<exists>p ps. split_chr c (x # xs) = (x # p) # ps"
  by (auto split: list.splits simp: split_chr_ne)

lemma fromHeader_fails_if_no_map:
  "(\<And>fm. pairsToMap_loop Map.empty (split_chr (CHR '','') h) \<noteq> Inr fm) \<Longrightarrow>
     isVerificationError (fromHeader pf h at)"
  unfolding fromHeader_fails_iff using fromHeader_Inr_parts by blast

lemma empty_pair_fails: "[] \<in> set ps \<Longrightarrow> pairsToMap_loop out ps \<noteq> Inr m"
proof
  assume "[] \<in> set ps" "pairsToMap_loop out ps = Inr m"
  from pairsToMap_loop_member [OF this(2,1)] show False by (simp add: indexOf_def)
qed

lemma ws_pair_fails:
  assumes "w # p \<in> set ps" "isWhiteSpace w"
  shows "pairsToMap_loop out ps \<noteq> Inr m"
proof
  assume "pairsToMap_loop out ps = Inr m"
  from pairsToMap_loop_member [OF this assms(1)] obtain i where
    i: "take i (w # p) \<noteq> []" "\<forall>c\<in>set (take i (w # p)). \<not> isWhiteSpace c"
    by blast
  from i(1) have "w \<in> set (take i (w # p))" by (cases i) auto
  with i(2) assms(2) show False by blast
qed

lemma pairsToMap_loop_distinct:
  "pairsToMap_loop out ps = Inr m \<Longrightarrow>
     distinct (map (\<lambda>p. take (the (indexOf p (CHR ''=''))) p) ps)
     \<and> (\<forall>p\<in>set ps. out (take (the (indexOf p (CHR ''=''))) p) = None)"
proof (induction ps arbitrary: out)
  case Nil
  then show ?case by simp
next
  case (Cons q ps)
  from Cons.prems(1) obtain i where i: "indexOf q (CHR ''='') = Some i"
    by (auto split: option.splits)
  with Cons.prems(1) have none: "out (take i q) = None"
    and rec: "pairsToMap_loop (out(take i q \<mapsto> drop (Suc i) q)) ps = Inr m"
    by (auto simp: Let_def split: if_splits)
  from Cons.IH [OF rec] have d: "distinct (map (\<lambda>p. take (the (indexOf p (CHR ''=''))) p) ps)"
    and n: "\<forall>p\<in>set ps. (out(take i q \<mapsto> drop (Suc i) q)) (take (the (indexOf p (CHR ''=''))) p) = None"
    by blast+
  from n have n1: "\<forall>p\<in>set ps. take (the (indexOf p (CHR ''=''))) p \<noteq> take i q"
    by (auto split: if_splits)
  from n have n2: "\<forall>p\<in>set ps. out (take (the (indexOf p (CHR ''=''))) p) = None"
    by (auto split: if_splits)
  show ?case using d n1 n2 none i by auto
qed

lemma duplicate_fails:
  assumes "i < j" "j < length ps" "ps ! i = k @ ''='' @ v" "ps ! j = k @ ''='' @ w"
      and "CHR ''='' \<notin> set k"
  shows "pairsToMap_loop out ps \<noteq> Inr m"
proof
  assume "pairsToMap_loop out ps = Inr m"
  then have d: "distinct (map (\<lambda>p. take (the (indexOf p (CHR ''=''))) p) ps)"
    using pairsToMap_loop_distinct by blast
  have "take (the (indexOf (ps ! i) (CHR ''=''))) (ps ! i) = k"
    "take (the (indexOf (ps ! j) (CHR ''=''))) (ps ! j) = k"
    using assms(3,4) indexOf_eq_field [OF assms(5)] by simp_all
  then have "map (\<lambda>p. take (the (indexOf p (CHR ''=''))) p) ps ! i =
             map (\<lambda>p. take (the (indexOf p (CHR ''=''))) p) ps ! j"
    using assms(1,2) by simp
  moreover have "i < length (map (\<lambda>p. take (the (indexOf p (CHR ''=''))) p) ps)"
    "j < length (map (\<lambda>p. take (the (indexOf p (CHR ''=''))) p) ps)"
    using assms(1,2) by simp_all
  ultimately have "i = j" using d nth_eq_iff_index_eq by blast
  with assms(1) show False by simp
qed

lemma field_getter_runs:
  assumes "fromHeader pf h at = Inr sg"
      and "k @ ''='' @ v \<in> set (split_chr (CHR '','') h)" and "CHR ''='' \<notin> set k"
  shows "\<exists>fm. fm k = Some v \<and> v \<noteq> []
           \<and> (\<exists>x. getKeyId fm = Inr x) \<and> (\<exists>x. getSignature fm = Inr x)
           \<and> (\<exists>x. getHeaders fm = Inr x) \<and> (\<exists>x. getSignatureAlgorithm fm = Inr x)
           \<and> (\<exists>x. getCreated fm = Inr x) \<and> (\<exists>x. getExpires pf fm = Inr x)"
proof -
  from fromHeader_Inr_parts [OF assms(1)] obtain fm where
    fm: "pairsToMap_loop Map.empty (split_chr (CHR '','') h) = Inr fm"
    and rest: "(\<exists>x. getKeyId fm = Inr x) \<and> (\<exists>x. getSignature fm = Inr x)
           \<and> (\<exists>x. getHeaders fm = Inr x) \<and> (\<exists>x. getSignatureAlgorithm fm = Inr x)
           \<and> (\<exists>x. getCreated fm = Inr x) \<and> (\<exists>x. getExpires pf fm = Inr x)"
    by blast
  from field_lookup [OF fm assms(2,3)] rest show ?thesis by blast
qed

lemma created_parsed:
  assumes "fromHeader pf h at = Inr sg" and "''created='' @ v \<in> set (split_chr (CHR '','') h)"
  shows "\<exists>n. parseIntField v = Inr n"
proof -
  from field_getter_runs [OF assms(1), of "''created''" v] assms(2)
  obtain fm x where "fm ''created'' = Some v" "v \<noteq> []" "getCreated fm = Inr x" by auto
  then show ?thesis
    by (auto simp: getCreated_def truthyStr_def bindE_Inr_iff)
qed

lemma expires_parsed:
  assumes "fromHeader pf h at = Inr sg" and "''expires='' @ v \<in> set (split_chr (CHR '','') h)"
  shows "\<exists>n. parseDecimalField v = Inr n"
proof -
  from field_getter_runs [OF assms(1), of "''expires''" v] assms(2)
  obtain fm x where "fm ''expires'' = Some v" "v \<noteq> []" "getExpires pf fm = Inr x" by auto
  then show ?thesis
    by (auto simp: getExpires_def truthyStr_def bindE_Inr_iff)
qed

lemma string_field_parsed:
  assumes "fromHeader pf h at = Inr sg" and "k @ ''='' @ v \<in> set (split_chr (CHR '','') h)"
      and "k \<in> {''keyId'', ''algorithm'', ''headers'', ''signature''}"
  shows "\<exists>u. parseStringField v = Inr u"
proof -
  from assms(3) have "CHR ''='' \<notin> set k" by auto
  from field_getter_runs [OF assms(1,2) this]
  obtain fm where fm: "fm k = Some v" "v \<noteq> []" "\<exists>x. getKeyId fm = Inr x"
    "\<exists>x. getSignature fm = Inr x" "\<exists>x. getHeaders fm = Inr x"
    "\<exists>x. getSignatureAlgorithm fm = Inr x" by auto
  from assms(3) consider "k = ''keyId''" | "k = ''algorithm''" | "k = ''headers''" | "k = ''signature''"
    by auto
  then show ?thesis
  proof cases
    case 1 with fm show ?thesis by (auto simp: getKeyId_def truthyStr_def)
  next
    case 2 with fm show ?thesis
      by (auto simp: getSignatureAlgorithm_def truthyStr_def bindE_Inr_iff)
  next
    case 3 with fm show ?thesis
      by (auto simp: getHeaders_def truthyStr_def bindE_Inr_iff)
  next
    case 4 with fm show ?thesis
      by (auto simp: getSignature_def truthyStr_def bindE_Inr_iff)
  qed
qed

lemma isWhiteSpace_toLowerChar: "isWhiteSpace (toLowerChar c) = isWhiteSpace c"
  by (auto simp: toLowerChar_def isWhiteSpace_def Let_def)

lemma split_chr_covers: "x \<in> set s \<Longrightarrow> x \<noteq> c \<Longrightarrow> \<exists>p\<in>set (split_chr c s). x \<in> set p"
  by (induction s) (auto split: list.splits simp: split_chr_ne)

lemma headers_parsed:
  assumes "fromHeader pf h at = Inr sg"
      and "''headers='' @ [CHR 0x22] @ v @ [CHR 0x22] \<in> set (split_chr (CHR '','') h)"
  shows "\<forall>s\<in>set (split_chr (CHR '' '') v). s \<noteq> [] \<and> (\<forall>c\<in>set s. \<not> isWhiteSpace c)"
proof -
  from field_getter_runs [OF assms(1), of "''headers''" "[CHR 0x22] @ v @ [CHR 0x22]"] assms(2)
  obtain fm x where fm: "fm ''headers'' = Some ([CHR 0x22] @ v @ [CHR 0x22])"
    "getHeaders fm = Inr x" by auto
  have ps: "parseStringField ([CHR 0x22] @ v @ [CHR 0x22]) = Inr v"
    by (simp add: parseStringField_def startsWith_def endsWith_def butlast_append)
  from fm ps have "\<not> (\<exists>s\<in>set (map toLowerCase (split_chr (CHR '' '') v)).
                       length s = 0 \<or> (\<exists>c\<in>set s. isWhiteSpace c))"
    by (auto simp: getHeaders_def truthyStr_def Let_def split: if_splits)
  then show ?thesis
    by (auto simp: toLowerCase_def isWhiteSpace_toLowerChar)
qed

text \<open>
  Claim C5.  \<open>Signature.fromHeader\<close> fails with a verification error on: a leading comma, a
  trailing comma, two consecutive commas, white space right after a comma; a parameter
  \<open>created\<close> or \<open>expires\<close> whose value starts with a quote; a parameter \<open>keyId\<close>,
  \<open>algorithm\<close>, \<open>headers\<close> or \<open>signature\<close> whose value is not enclosed in quotes;
  \<open>created=01\<close>, \<open>created=-1\<close>, \<open>created=1234.56\<close>, \<open>expires=.1\<close>, \<open>expires=1.\<close>,
  \<open>expires=1.2.3\<close>; a \<open>headers\<close> value with a leading space, two consecutive spaces or a
  tab; and a parameter name that occurs twice.  The rest of the header is arbitrary: a
  parameter is any piece of the header between commas.
\<close>

theorem fromHeader_strict_rejections:
  "isVerificationError (fromHeader pf (CHR '','' # s) at)
   \<and> isVerificationError (fromHeader pf (s @ '','') at)
   \<and> isVerificationError (fromHeader pf (a @ '',,'' @ b) at)
   \<and> (isWhiteSpace w \<longrightarrow> isVerificationError (fromHeader pf (a @ '','' @ w # b) at))
   \<and> (p \<in> set (split_chr (CHR '','') h)
        \<and> (p = ''created='' @ CHR 0x22 # v \<or> p = ''expires='' @ CHR 0x22 # v)
      \<longrightarrow> isVerificationError (fromHeader pf h at))
   \<and> (p \<in> set (split_chr (CHR '','') h)
        \<and> k \<in> {''keyId'', ''algorithm'', ''headers'', ''signature''} \<and> p = k @ ''='' @ v
        \<and> \<not> (startsWith v [CHR 0x22] \<and> endsWith v [CHR 0x22])
      \<longrightarrow> isVerificationError (fromHeader pf h at))
   \<and> (p \<in> set (split_chr (CHR '','') h)
        \<and> p \<in> {''created=01'', ''created=-1'', ''created=1234.56'',
                 ''expires=.1'', ''expires=1.'', ''expires=1.2.3''}
      \<longrightarrow> isVerificationError (fromHeader pf h at))
   \<and> (p \<in> set (split_chr (CHR '','') h)
        \<and> (p = ''headers='' @ [CHR 0x22] @ CHR '' '' # v @ [CHR 0x22]
            \<or> p = ''headers='' @ [CHR 0x22] @ x @ ''  '' @ y @ [CHR 0x22]
            \<or> p = ''headers='' @ [CHR 0x22] @ v @ [CHR 0x22] \<and> CHR 0x09 \<in> set v)
      \<longrightarrow> isVerificationError (fromHeader pf h at))
   \<and> (i < j \<and> j < length (split_chr (CHR '','') h)
        \<and> split_chr (CHR '','') h ! i = k @ ''='' @ u
        \<and> split_chr (CHR '','') h ! j = k @ ''='' @ u' \<and> CHR ''='' \<notin> set k
      \<longrightarrow> isVerificationError (fromHeader pf h at))"
proof (intro conjI impI)
  show "isVerificationError (fromHeader pf (CHR '','' # s) at)"
    by (rule fromHeader_fails_if_no_map) (rule empty_pair_fails, simp)
  have "split_chr (CHR '','') (s @ '','') = split_chr (CHR '','') s @ [[]]"
    using split_chr_append [of "CHR '',''" s "[]"] by simp
  then show "isVerificationError (fromHeader pf (s @ '','') at)"
    by (intro fromHeader_fails_if_no_map empty_pair_fails) simp
  have "split_chr (CHR '','') (a @ '',,'' @ b) =
          split_chr (CHR '','') a @ [] # split_chr (CHR '','') b"
    using split_chr_append [of "CHR '',''" a "CHR '','' # b"] by simp
  then show "isVerificationError (fromHeader pf (a @ '',,'' @ b) at)"
    by (intro fromHeader_fails_if_no_map empty_pair_fails) simp
next
  assume w: "isWhiteSpace w"
  then have "w \<noteq> CHR '',''" by (auto simp: isWhiteSpace_def)
  from split_chr_hd [OF this] obtain q qs where "split_chr (CHR '','') (w # b) = (w # q) # qs"
    by blast
  then have "w # q \<in> set (split_chr (CHR '','') (a @ '','' @ w # b))"
    using split_chr_append [of "CHR '',''" a "w # b"] by simp
  then show "isVerificationError (fromHeader pf (a @ '','' @ w # b) at)"
    using w by (intro fromHeader_fails_if_no_map ws_pair_fails)
next
  assume "p \<in> set (split_chr (CHR '','') h)
        \<and> (p = ''created='' @ CHR 0x22 # v \<or> p = ''expires='' @ CHR 0x22 # v)"
  then consider "''created='' @ CHR 0x22 # v \<in> set (split_chr (CHR '','') h)"
    | "''expires='' @ CHR 0x22 # v \<in> set (split_chr (CHR '','') h)" by blast
  then show "isVerificationError (fromHeader pf h at)"
  proof cases
    case 1
    have "parseIntField (CHR 0x22 # v) = Inl (VerificationError MSG_MALFORMED)"
      by (simp add: parseIntField_def isDigit_def)
    with created_parsed [OF _ 1] show ?thesis unfolding fromHeader_fails_iff by fastforce
  next
    case 2
    have "parseDecimalField (CHR 0x22 # v) = Inl (VerificationError MSG_MALFORMED)"
      by (simp add: parseDecimalField_def isDigit_def)
    with expires_parsed [OF _ 2] show ?thesis unfolding fromHeader_fails_iff by fastforce
  qed
next
  assume "p \<in> set (split_chr (CHR '','') h)
        \<and> k \<in> {''keyId'', ''algorithm'', ''headers'', ''signature''} \<and> p = k @ ''='' @ v
        \<and> \<not> (startsWith v [CHR 0x22] \<and> endsWith v [CHR 0x22])"
  then have m: "k @ ''='' @ v \<in> set (split_chr (CHR '','') h)"
    and k: "k \<in> {''keyId'', ''algorithm'', ''headers'', ''signature''}"
    and "parseStringField v = Inl (VerificationError MSG_MALFORMED)"
    by (auto simp: parseStringField_def)
  with string_field_parsed [OF _ m k] show "isVerificationError (fromHeader pf h at)"
    unfolding fromHeader_fails_iff by fastforce
next
  assume a: "p \<in> set (split_chr (CHR '','') h)
        \<and> p \<in> {''created=01'', ''created=-1'', ''created=1234.56'',
                 ''expires=.1'', ''expires=1.'', ''expires=1.2.3''}"
  have c: "parseIntField ''01'' = Inl (VerificationError MSG_MALFORMED)"
    "parseIntField ''-1'' = Inl (VerificationError MSG_MALFORMED)"
    "parseIntField ''1234.56'' = Inl (VerificationError MSG_MALFORMED)"
    by code_simp+
  have e: "parseDecimalField ''.1'' = Inl (VerificationError MSG_MALFORMED)"
    "parseDecimalField ''1.'' = Inl (VerificationError MSG_MALFORMED)"
    "parseDecimalField ''1.2.3'' = Inl (VerificationError MSG_MALFORMED)"
    by code_simp+
  from a consider v where "v \<in> {''01'', ''-1'', ''1234.56''}"
      "''created='' @ v \<in> set (split_chr (CHR '','') h)"
    | v where "v \<in> {''.1'', ''1.'', ''1.2.3''}"
      "''expires='' @ v \<in> set (split_chr (CHR '','') h)"
    by auto
  then show "isVerificationError (fromHeader pf h at)"
  proof cases
    case 1
    with c have "parseIntField v = Inl (VerificationError MSG_MALFORMED)" by auto
    with created_parsed [OF _ 1(2)] show ?thesis unfolding fromHeader_fails_iff by fastforce
  next
    case 2
    with e have "parseDecimalField v = Inl (VerificationError MSG_MALFORMED)" by auto
    with expires_parsed [OF _ 2(2)] show ?thesis unfolding fromHeader_fails_iff by fastforce
  qed
next
  assume a: "p \<in> set (split_chr (CHR '','') h)
        \<and> (p = ''headers='' @ [CHR 0x22] @ CHR '' '' # v @ [CHR 0x22]
            \<or> p = ''headers='' @ [CHR 0x22] @ x @ ''  '' @ y @ [CHR 0x22]
            \<or> p = ''headers='' @ [CHR 0x22] @ v @ [CHR 0x22] \<and> CHR 0x09 \<in> set v)"
  then have "\<exists>hv. ''headers='' @ [CHR 0x22] @ hv @ [CHR 0x22] \<in> set (split_chr (CHR '','') h)
      \<and> (hv = CHR '' '' # v \<or> hv = x @ ''  '' @ y \<or> CHR 0x09 \<in> set hv)"
  proof (elim conjE disjE)
    assume "p \<in> set (split_chr (CHR '','') h)"
      "p = ''headers='' @ [CHR 0x22] @ CHR '' '' # v @ [CHR 0x22]"
    then show ?thesis by (intro exI [of _ "CHR '' '' # v"]) simp
  next
    assume "p \<in> set (split_chr (CHR '','') h)"
      "p = ''headers='' @ [CHR 0x22] @ x @ ''  '' @ y @ [CHR 0x22]"
    then show ?thesis by (intro exI [of _ "x @ ''  '' @ y"]) simp
  next
    assume "p \<in> set (split_chr (CHR '','') h)"
      "p = ''headers='' @ [CHR 0x22] @ v @ [CHR 0x22]" "CHR 0x09 \<in> set v"
    then show ?thesis by (intro exI [of _ v]) simp
  qed
  then obtain hv where m: "''headers='' @ [CHR 0x22] @ hv @ [CHR 0x22] \<in> set (split_chr (CHR '','') h)"
    and bad: "hv = CHR '' '' # v \<or> hv = x @ ''  '' @ y \<or> CHR 0x09 \<in> set hv"
    by blast
  have "\<exists>s\<in>set (split_chr (CHR '' '') hv). s = [] \<or> (\<exists>c\<in>set s. isWhiteSpace c)"
    using bad
  proof (elim disjE)
    assume "hv = CHR '' '' # v"
    then show ?thesis by simp
  next
    assume "hv = x @ ''  '' @ y"
    then have "split_chr (CHR '' '') hv = split_chr (CHR '' '') x @ [] # split_chr (CHR '' '') y"
      using split_chr_append [of "CHR '' ''" x "CHR '' '' # y"] by simp
    then show ?thesis by simp
  next
    assume "CHR 0x09 \<in> set hv"
    from split_chr_covers [OF this, of "CHR '' ''"]
    obtain q where "q \<in> set (split_chr (CHR '' '') hv)" "CHR 0x09 \<in> set q" by auto
    moreover have "isWhiteSpace (CHR 0x09)" by (simp add: isWhiteSpace_def)
    ultimately show ?thesis by blast
  qed
  with headers_parsed [OF _ m] show "isVerificationError (fromHeader pf h at)"
    unfolding fromHeader_fails_iff by fastforce
next
  assume "i < j \<and> j < length (split_chr (CHR '','') h)
        \<and> split_chr (CHR '','') h ! i = k @ ''='' @ u
        \<and> split_chr (CHR '','') h ! j = k @ ''='' @ u' \<and> CHR ''='' \<notin> set k"
  then show "isVerificationError (fromHeader pf h at)"
    by (intro fromHeader_fails_if_no_map duplicate_fails [of i j _ k u u']) simp_all
qed

text \<open>The theorem of C5 on the inputs of the parser's test suite.\<close>

theorem fromHeader_strict_rejections_witness:
  "\<forall>pf at.
     isVerificationError (fromHeader pf '',keyId=\"test\",signature=\"3UqQIVxNJfNm8E54n35RReP9Nv05a9dEZTxr/deog3g=\"'' at)
     \<and> isVerificationError (fromHeader pf ''keyId=\"test\",signature=\"3UqQIVxNJfNm8E54n35RReP9Nv05a9dEZTxr/deog3g=\",'' at)
     \<and> isVerificationError (fromHeader pf ''keyId=\"test\",,signature=\"3UqQIVxNJfNm8E54n35RReP9Nv05a9dEZTxr/deog3g=\"'' at)
     \<and> isVerificationError (fromHeader pf ''keyId=\"test\", signature=\"3UqQIVxNJfNm8E54n35RReP9Nv05a9dEZTxr/deog3g=\"'' at)
     \<and> isVerificationError (fromHeader pf ''keyId=\"test\",algorithm=\"hs2019\",created=\"1234\",signature=\"3UqQIVxNJfNm8E54n35RReP9Nv05a9dEZTxr/deog3g=\"'' at)
     \<and> isVerificationError (fromHeader pf ''keyId=\"test\",algorithm=\"hs2019\",expires=\"1234\",signature=\"3UqQIVxNJfNm8E54n35RReP9Nv05a9dEZTxr/deog3g=\"'' at)
     \<and> isVerificationError (fromHeader pf ''keyId=test,signature=\"3UqQIVxNJfNm8E54n35RReP9Nv05a9dEZTxr/deog3g=\"'' at)
     \<and> isVerificationError (fromHeader pf ''keyId=\"test\",algorithm=hs2019,signature=\"3UqQIVxNJfNm8E54n35RReP9Nv05a9dEZTxr/deog3g=\"'' at)
     \<and> isVerificationError (fromHeader pf ''keyId=\"test\",headers=host,signature=\"3UqQIVxNJfNm8E54n35RReP9Nv05a9dEZTxr/deog3g=\"'' at)
     \<and> isVerificationError (fromHeader pf ''keyId=\"test\",signature=3UqQIVxNJfNm8E54n35RReP9Nv05a9dEZTxr/deog3g='' at)
     \<and> isVerificationError (fromHeader pf ''keyId=\"test\",created=01,signature=\"3UqQIVxNJfNm8E54n35RReP9Nv05a9dEZTxr/deog3g=\"'' at)
     \<and> isVerificationError (fromHeader pf ''keyId=\"test\",created=-1,signature=\"3UqQIVxNJfNm8E54n35RReP9Nv05a9dEZTxr/deog3g=\"'' at)
     \<and> isVerificationError (fromHeader pf ''keyId=\"test\",created=1234.56,signature=\"3UqQIVxNJfNm8E54n35RReP9Nv05a9dEZTxr/deog3g=\"'' at)
     \<and> isVerificationError (fromHeader pf ''keyId=\"test\",expires=.1,signature=\"3UqQIVxNJfNm8E54n35RReP9Nv05a9dEZTxr/deog3g=\"'' at)
     \<and> isVerificationError (fromHeader pf ''keyId=\"test\",expires=1.,signature=\"3UqQIVxNJfNm8E54n35RReP9Nv05a9dEZTxr/deog3g=\"'' at)
     \<and> isVerificationError (fromHeader pf ''keyId=\"test\",expires=1.2.3,signature=\"3UqQIVxNJfNm8E54n35RReP9Nv05a9dEZTxr/deog3g=\"'' at)
     \<and> isVerificationError (fromHeader pf ''keyId=\"test\",headers=\" content-type (request-target) host digest\",signature=\"3UqQIVxNJfNm8E54n35RReP9Nv05a9dEZTxr/deog3g=\"'' at)
     \<and> isVerificationError (fromHeader pf ''keyId=\"test\",headers=\"content-type (request-target) host  digest\",signature=\"3UqQIVxNJfNm8E54n35RReP9Nv05a9dEZTxr/deog3g=\"'' at)
     \<and> isVerificationError (fromHeader pf (''keyId=\"test\",algorithm=\"hs2019\",headers=\"content-type (request-target) host'' @ CHR 0x09 # ''digest\",signature=\"3UqQIVxNJfNm8E54n35RReP9Nv05a9dEZTxr/deog3g=\"'') at)
     \<and> isVerificationError (fromHeader pf ''keyId=\"test\",keyId=\"test\",signature=\"3UqQIVxNJfNm8E54n35RReP9Nv05a9dEZTxr/deog3g=\"'' at)"
proof (intro allI conjI)
  fix pf :: platform and at :: "Date option"
  show "isVerificationError (fromHeader pf '',keyId=\"test\",signature=\"3UqQIVxNJfNm8E54n35RReP9Nv05a9dEZTxr/deog3g=\"'' at)"
    using fromHeader_strict_rejections
      [where pf = pf and at = at and s = "''keyId=\"test\",signature=\"3UqQIVxNJfNm8E54n35RReP9Nv05a9dEZTxr/deog3g=\"''",
       THEN conjunct1] 
    by simp
  show "isVerificationError (fromHeader pf ''keyId=\"test\",signature=\"3UqQIVxNJfNm8E54n35RReP9Nv05a9dEZTxr/deog3g=\",'' at)"
    using fromHeader_strict_rejections
      [where pf = pf and at = at and s = "''keyId=\"test\",signature=\"3UqQIVxNJfNm8E54n35RReP9Nv05a9dEZTxr/deog3g=\"''",
       THEN conjunct2, THEN conjunct1] 
    by simp
  show "isVerificationError (fromHeader pf ''keyId=\"test\",,signature=\"3UqQIVxNJfNm8E54n35RReP9Nv05a9dEZTxr/deog3g=\"'' at)"
    using fromHeader_strict_rejections
      [where pf = pf and at = at and a = "''keyId=\"test\"''" and b = "''signature=\"3UqQIVxNJfNm8E54n35RReP9Nv05a9dEZTxr/deog3g=\"''",
       THEN conjunct2, THEN conjunct2, THEN conjunct1] 
    by simp
  show "isVerificationError (fromHeader pf ''keyId=\"test\", signature=\"3UqQIVxNJfNm8E54n35RReP9Nv05a9dEZTxr/deog3g=\"'' at)"
    using fromHeader_strict_rejections
      [where pf = pf and at = at and a = "''keyId=\"test\"''" and b = "''signature=\"3UqQIVxNJfNm8E54n35RReP9Nv05a9dEZTxr/deog3g=\"''" and w = "CHR '' ''",
       THEN conjunct2, THEN conjunct2, THEN conjunct2, THEN conjunct1] 
    by (simp add: isWhiteSpace_def)
  have m4: "''created=\"1234\"'' \<in> set (split_chr (CHR '','') ''keyId=\"test\",algorithm=\"hs2019\",created=\"1234\",signature=\"3UqQIVxNJfNm8E54n35RReP9Nv05a9dEZTxr/deog3g=\"'')"
    by code_simp
  show "isVerificationError (fromHeader pf ''keyId=\"test\",algorithm=\"hs2019\",created=\"1234\",signature=\"3UqQIVxNJfNm8E54n35RReP9Nv05a9dEZTxr/deog3g=\"'' at)"
    using fromHeader_strict_rejections
      [where pf = pf and at = at and p = "''created=\"1234\"''" and h = "''keyId=\"test\",algorithm=\"hs2019\",created=\"1234\",signature=\"3UqQIVxNJfNm8E54n35RReP9Nv05a9dEZTxr/deog3g=\"''" and v = "''1234\"''",
       THEN conjunct2, THEN conjunct2, THEN conjunct2, THEN conjunct2, THEN conjunct1] m4
    by simp
  have m5: "''expires=\"1234\"'' \<in> set (split_chr (CHR '','') ''keyId=\"test\",algorithm=\"hs2019\",expires=\"1234\",signature=\"3UqQIVxNJfNm8E54n35RReP9Nv05a9dEZTxr/deog3g=\"'')"
    by code_simp
  show "isVerificationError (fromHeader pf ''keyId=\"test\",algorithm=\"hs2019\",expires=\"1234\",signature=\"3UqQIVxNJfNm8E54n35RReP9Nv05a9dEZTxr/deog3g=\"'' at)"
    using fromHeader_strict_rejections
      [where pf = pf and at = at and p = "''expires=\"1234\"''" and h = "''keyId=\"test\",algorithm=\"hs2019\",expires=\"1234\",signature=\"3UqQIVxNJfNm8E54n35RReP9Nv05a9dEZTxr/deog3g=\"''" and v = "''1234\"''",
       THEN conjunct2, THEN conjunct2, THEN conjunct2, THEN conjunct2, THEN conjunct1] m5
    by simp
  have m6: "''keyId=test'' \<in> set (split_chr (CHR '','') ''keyId=test,signature=\"3UqQIVxNJfNm8E54n35RReP9Nv05a9dEZTxr/deog3g=\"'')"
    by code_simp
  show "isVerificationError (fromHeader pf ''keyId=test,signature=\"3UqQIVxNJfNm8E54n35RReP9Nv05a9dEZTxr/deog3g=\"'' at)"
    using fromHeader_strict_rejections
      [where pf = pf and at = at and p = "''keyId=test''" and h = "''keyId=test,signature=\"3UqQIVxNJfNm8E54n35RReP9Nv05a9dEZTxr/deog3g=\"''" and k = "''keyId''" and v = "''test''",
       THEN conjunct2, THEN conjunct2, THEN conjunct2, THEN conjunct2, THEN conjunct2, THEN conjunct1] m6
    by (simp add: startsWith_def endsWith_def)
  have m7: "''algorithm=hs2019'' \<in> set (split_chr (CHR '','') ''keyId=\"test\",algorithm=hs2019,signature=\"3UqQIVxNJfNm8E54n35RReP9Nv05a9dEZTxr/deog3g=\"'')"
    by code_simp
  show "isVerificationError (fromHeader pf ''keyId=\"test\",algorithm=hs2019,signature=\"3UqQIVxNJfNm8E54n35RReP9Nv05a9dEZTxr/deog3g=\"'' at)"
    using fromHeader_strict_rejections
      [where pf = pf and at = at and p = "''algorithm=hs2019''" and h = "''keyId=\"test\",algorithm=hs2019,signature=\"3UqQIVxNJfNm8E54n35RReP9Nv05a9dEZTxr/deog3g=\"''" and k = "''algorithm''" and v = "''hs2019''",
       THEN conjunct2, THEN conjunct2, THEN conjunct2, THEN conjunct2, THEN conjunct2, THEN conjunct1] m7
    by (simp add: startsWith_def endsWith_def)
  have m8: "''headers=host'' \<in> set (split_chr (CHR '','') ''keyId=\"test\",headers=host,signature=\"3UqQIVxNJfNm8E54n35RReP9Nv05a9dEZTxr/deog3g=\"'')"
    by code_simp
  show "isVerificationError (fromHeader pf ''keyId=\"test\",headers=host,signature=\"3UqQIVxNJfNm8E54n35RReP9Nv05a9dEZTxr/deog3g=\"'' at)"
    using fromHeader_strict_rejections
      [where pf = pf and at = at and p = "''headers=host''" and h = "''keyId=\"test\",headers=host,signature=\"3UqQIVxNJfNm8E54n35RReP9Nv05a9dEZTxr/deog3g=\"''" and k = "''headers''" and v = "''host''",
       THEN conjunct2, THEN conjunct2, THEN conjunct2, THEN conjunct2, THEN conjunct2, THEN conjunct1] m8
    by (simp add: startsWith_def endsWith_def)
  have m9: "''signature=3UqQIVxNJfNm8E54n35RReP9Nv05a9dEZTxr/deog3g='' \<in> set (split_chr (CHR '','') ''keyId=\"test\",signature=3UqQIVxNJfNm8E54n35RReP9Nv05a9dEZTxr/deog3g='')"
    by code_simp
  show "isVerificationError (fromHeader pf ''keyId=\"test\",signature=3UqQIVxNJfNm8E54n35RReP9Nv05a9dEZTxr/deog3g='' at)"
    using fromHeader_strict_rejections
      [where pf = pf and at = at and p = "''signature=3UqQIVxNJfNm8E54n35RReP9Nv05a9dEZTxr/deog3g=''" and h = "''keyId=\"test\",signature=3UqQIVxNJfNm8E54n35RReP9Nv05a9dEZTxr/deog3g=''" and k = "''signature''" and v = "''3UqQIVxNJfNm8E54n35RReP9Nv05a9dEZTxr/deog3g=''",
       THEN conjunct2, THEN conjunct2, THEN conjunct2, THEN conjunct2, THEN conjunct2, THEN conjunct1] m9
    by (simp add: startsWith_def endsWith_def)
  have m10: "''created=01'' \<in> set (split_chr (CHR '','') ''keyId=\"test\",created=01,signature=\"3UqQIVxNJfNm8E54n35RReP9Nv05a9dEZTxr/deog3g=\"'')"
    by code_simp
  show "isVerificationError (fromHeader pf ''keyId=\"test\",created=01,signature=\"3UqQIVxNJfNm8E54n35RReP9Nv05a9dEZTxr/deog3g=\"'' at)"
    using fromHeader_strict_rejections
      [where pf = pf and at = at and p = "''created=01''" and h = "''keyId=\"test\",created=01,signature=\"3UqQIVxNJfNm8E54n35RReP9Nv05a9dEZTxr/deog3g=\"''",
       THEN conjunct2, THEN conjunct2, THEN conjunct2, THEN conjunct2, THEN conjunct2, THEN conjunct2, THEN conjunct1] m10
    by simp
  have m11: "''created=-1'' \<in> set (split_chr (CHR '','') ''keyId=\"test\",created=-1,signature=\"3UqQIVxNJfNm8E54n35RReP9Nv05a9dEZTxr/deog3g=\"'')"
    by code_simp
  show "isVerificationError (fromHeader pf ''keyId=\"test\",created=-1,signature=\"3UqQIVxNJfNm8E54n35RReP9Nv05a9dEZTxr/deog3g=\"'' at)"
    using fromHeader_strict_rejections
      [where pf = pf and at = at and p = "''created=-1''" and h = "''keyId=\"test\",created=-1,signature=\"3UqQIVxNJfNm8E54n35RReP9Nv05a9dEZTxr/deog3g=\"''",
       THEN conjunct2, THEN conjunct2, THEN conjunct2, THEN conjunct2, THEN conjunct2, THEN conjunct2, THEN conjunct1] m11
    by simp
  have m12: "''created=1234.56'' \<in> set (split_chr (CHR '','') ''keyId=\"test\",created=1234.56,signature=\"3UqQIVxNJfNm8E54n35RReP9Nv05a9dEZTxr/deog3g=\"'')"
    by code_simp
  show "isVerificationError (fromHeader pf ''keyId=\"test\",created=1234.56,signature=\"3UqQIVxNJfNm8E54n35RReP9Nv05a9dEZTxr/deog3g=\"'' at)"
    using fromHeader_strict_rejections
      [where pf = pf and at = at and p = "''created=1234.56''" and h = "''keyId=\"test\",created=1234.56,signature=\"3UqQIVxNJfNm8E54n35RReP9Nv05a9dEZTxr/deog3g=\"''",
       THEN conjunct2, THEN conjunct2, THEN conjunct2, THEN conjunct2, THEN conjunct2, THEN conjunct2, THEN conjunct1] m12
    by simp
  have m13: "''expires=.1'' \<in> set (split_chr (CHR '','') ''keyId=\"test\",expires=.1,signature=\"3UqQIVxNJfNm8E54n35RReP9Nv05a9dEZTxr/deog3g=\"'')"
    by code_simp
  show "isVerificationError (fromHeader pf ''keyId=\"test\",expires=.1,signature=\"3UqQIVxNJfNm8E54n35RReP9Nv05a9dEZTxr/deog3g=\"'' at)"
    using fromHeader_strict_rejections
      [where pf = pf and at = at and p = "''expires=.1''" and h = "''keyId=\"test\",expires=.1,signature=\"3UqQIVxNJfNm8E54n35RReP9Nv05a9dEZTxr/deog3g=\"''",
       THEN conjunct2, THEN conjunct2, THEN conjunct2, THEN conjunct2, THEN conjunct2, THEN conjunct2, THEN conjunct1] m13
    by simp
  have m14: "''expires=1.'' \<in> set (split_chr (CHR '','') ''keyId=\"test\",expires=1.,signature=\"3UqQIVxNJfNm8E54n35RReP9Nv05a9dEZTxr/deog3g=\"'')"
    by code_simp
  show "isVerificationError (fromHeader pf ''keyId=\"test\",expires=1.,signature=\"3UqQIVxNJfNm8E54n35RReP9Nv05a9dEZTxr/deog3g=\"'' at)"
    using fromHeader_strict_rejections
      [where pf = pf and at = at and p = "''expires=1.''" and h = "''keyId=\"test\",expires=1.,signature=\"3UqQIVxNJfNm8E54n35RReP9Nv05a9dEZTxr/deog3g=\"''",
       THEN conjunct2, THEN conjunct2, THEN conjunct2, THEN conjunct2, THEN conjunct2, THEN conjunct2, THEN conjunct1] m14
    by simp
  have m15: "''expires=1.2.3'' \<in> set (split_chr (CHR '','') ''keyId=\"test\",expires=1.2.3,signature=\"3UqQIVxNJfNm8E54n35RReP9Nv05a9dEZTxr/deog3g=\"'')"
    by code_simp
  show "isVerificationError (fromHeader pf ''keyId=\"test\",expires=1.2.3,signature=\"3UqQIVxNJfNm8E54n35RReP9Nv05a9dEZTxr/deog3g=\"'' at)"
    using fromHeader_strict_rejections
      [where pf = pf and at = at and p = "''expires=1.2.3''" and h = "''keyId=\"test\",expires=1.2.3,signature=\"3UqQIVxNJfNm8E54n35RReP9Nv05a9dEZTxr/deog3g=\"''",
       THEN conjunct2, THEN conjunct2, THEN conjunct2, THEN conjunct2, THEN conjunct2, THEN conjunct2, THEN conjunct1] m15
    by simp
  have m16: "''headers=\" content-type (request-target) host digest\"'' \<in> set (split_chr (CHR '','') ''keyId=\"test\",headers=\" content-type (request-target) host digest\",signature=\"3UqQIVxNJfNm8E54n35RReP9Nv05a9dEZTxr/deog3g=\"'')"
    by code_simp
  show "isVerificationError (fromHeader pf ''keyId=\"test\",headers=\" content-type (request-target) host digest\",signature=\"3UqQIVxNJfNm8E54n35RReP9Nv05a9dEZTxr/deog3g=\"'' at)"
    using fromHeader_strict_rejections
      [where pf = pf and at = at and p = "''headers=\" content-type (request-target) host digest\"''" and h = "''keyId=\"test\",headers=\" content-type (request-target) host digest\",signature=\"3UqQIVxNJfNm8E54n35RReP9Nv05a9dEZTxr/deog3g=\"''" and v = "''content-type (request-target) host digest''" and x = "''''" and y = "''''",
       THEN conjunct2, THEN conjunct2, THEN conjunct2, THEN conjunct2, THEN conjunct2, THEN conjunct2, THEN conjunct2, THEN conjunct1] m16
    by simp
  have m17: "''headers=\"content-type (request-target) host  digest\"'' \<in> set (split_chr (CHR '','') ''keyId=\"test\",headers=\"content-type (request-target) host  digest\",signature=\"3UqQIVxNJfNm8E54n35RReP9Nv05a9dEZTxr/deog3g=\"'')"
    by code_simp
  show "isVerificationError (fromHeader pf ''keyId=\"test\",headers=\"content-type (request-target) host  digest\",signature=\"3UqQIVxNJfNm8E54n35RReP9Nv05a9dEZTxr/deog3g=\"'' at)"
    using fromHeader_strict_rejections
      [where pf = pf and at = at and p = "''headers=\"content-type (request-target) host  digest\"''" and h = "''keyId=\"test\",headers=\"content-type (request-target) host  digest\",signature=\"3UqQIVxNJfNm8E54n35RReP9Nv05a9dEZTxr/deog3g=\"''" and v = "''''" and x = "''content-type (request-target) host''" and y = "''digest''",
       THEN conjunct2, THEN conjunct2, THEN conjunct2, THEN conjunct2, THEN conjunct2, THEN conjunct2, THEN conjunct2, THEN conjunct1] m17
    by simp
  have m18: "(''headers=\"content-type (request-target) host'' @ CHR 0x09 # ''digest\"'') \<in> set (split_chr (CHR '','') (''keyId=\"test\",algorithm=\"hs2019\",headers=\"content-type (request-target) host'' @ CHR 0x09 # ''digest\",signature=\"3UqQIVxNJfNm8E54n35RReP9Nv05a9dEZTxr/deog3g=\"''))"
    by code_simp
  show "isVerificationError (fromHeader pf (''keyId=\"test\",algorithm=\"hs2019\",headers=\"content-type (request-target) host'' @ CHR 0x09 # ''digest\",signature=\"3UqQIVxNJfNm8E54n35RReP9Nv05a9dEZTxr/deog3g=\"'') at)"
    using fromHeader_strict_rejections
      [where pf = pf and at = at and p = "(''headers=\"content-type (request-target) host'' @ CHR 0x09 # ''digest\"'')" and h = "(''keyId=\"test\",algorithm=\"hs2019\",headers=\"content-type (request-target) host'' @ CHR 0x09 # ''digest\",signature=\"3UqQIVxNJfNm8E54n35RReP9Nv05a9dEZTxr/deog3g=\"'')" and v = "(''content-type (request-target) host'' @ CHR 0x09 # ''digest'')" and x = "''''" and y = "''''",
       THEN conjunct2, THEN conjunct2, THEN conjunct2, THEN conjunct2, THEN conjunct2, THEN conjunct2, THEN conjunct2, THEN conjunct1] m18
    by simp
  have m19: "(0::nat) < 1 \<and> 1 < length (split_chr (CHR '','') ''keyId=\"test\",keyId=\"test\",signature=\"3UqQIVxNJfNm8E54n35RReP9Nv05a9dEZTxr/deog3g=\"'')
      \<and> split_chr (CHR '','') ''keyId=\"test\",keyId=\"test\",signature=\"3UqQIVxNJfNm8E54n35RReP9Nv05a9dEZTxr/deog3g=\"'' ! 0 = ''keyId=\"test\"''
      \<and> split_chr (CHR '','') ''keyId=\"test\",keyId=\"test\",signature=\"3UqQIVxNJfNm8E54n35RReP9Nv05a9dEZTxr/deog3g=\"'' ! 1 = ''keyId=\"test\"''"
    by code_simp
  show "isVerificationError (fromHeader pf ''keyId=\"test\",keyId=\"test\",signature=\"3UqQIVxNJfNm8E54n35RReP9Nv05a9dEZTxr/deog3g=\"'' at)"
    using fromHeader_strict_rejections
      [where pf = pf and at = at and h = "''keyId=\"test\",keyId=\"test\",signature=\"3UqQIVxNJfNm8E54n35RReP9Nv05a9dEZTxr/deog3g=\"''" and i = "0" and j = "1" and k = "''keyId''" and u = "''\"test\"''" and u' = "''\"test\"''",
       THEN conjunct2, THEN conjunct2, THEN conjunct2, THEN conjunct2, THEN conjunct2, THEN conjunct2, THEN conjunct2, THEN conjunct2] m19
    by simp
qed

section \<open>Timing windows\<close>

text \<open>
  Claim C7.  With a created timestamp, \<open>validCreation\<close> holds iff
  \<open>created - observedAt < CREATED_SLACK\<close>; with an expires timestamp, \<open>validExpires\<close> holds
  iff \<open>observedAt - expires < EXPIRES_SLACK\<close>; both slacks are 60000 ms; an absent timestamp
  makes its check true.  With \<open>observedAt\<close> = 1000000000000 ms and \<open>created\<close> given as
  \<open>floor((1000000000000 + 60000) / 1000) - 1\<close> seconds the parsed signature has a valid
  creation, and with \<open>+ 1\<close> it has not.
\<close>

theorem slack_windows:
  "(created sg = Some (Date c) \<and> observedAt sg = Date ob \<longrightarrow>
      (validCreation sg \<longleftrightarrow> c - ob < CREATED_SLACK))
   \<and> (expires sg = Some (Date e) \<and> observedAt sg = Date ob \<longrightarrow>
      (validExpires sg \<longleftrightarrow> ob - e < EXPIRES_SLACK))
   \<and> (created sg = None \<longrightarrow> validCreation sg)
   \<and> (expires sg = None \<longrightarrow> validExpires sg)
   \<and> CREATED_SLACK = 60000 \<and> EXPIRES_SLACK = 60000
   \<and> (1000000000000 + CREATED_SLACK) div 1000 - 1 = 1000000059
   \<and> (\<exists>s. fromHeader pf
          ''keyId=\"test\",algorithm=\"hs2019\",headers=\"content-type (created) (request-target) host digest\",created=1000000059,signature=\"3UqQIVxNJfNm8E54n35RReP9Nv05a9dEZTxr/deog3g=\"''
          (Some (Date 1000000000000)) = Inr s
        \<and> created s = Some (Date 1000000059000) \<and> observedAt s = Date 1000000000000
        \<and> validCreation s)
   \<and> (1000000000000 + CREATED_SLACK) div 1000 + 1 = 1000000061
   \<and> (\<exists>s. fromHeader pf
          ''keyId=\"test\",algorithm=\"hs2019\",headers=\"content-type (created) (request-target) host digest\",created=1000000061,signature=\"3UqQIVxNJfNm8E54n35RReP9Nv05a9dEZTxr/deog3g=\"''
          (Some (Date 1000000000000)) = Inr s
        \<and> created s = Some (Date 1000000061000) \<and> observedAt s = Date 1000000000000
        \<and> \<not> validCreation s)"
proof (intro conjI impI)
  show "validCreation sg \<longleftrightarrow> c - ob < CREATED_SLACK"
    if "created sg = Some (Date c) \<and> observedAt sg = Date ob"
    using that by (simp add: validCreation_def)
  show "validExpires sg \<longleftrightarrow> ob - e < EXPIRES_SLACK"
    if "expires sg = Some (Date e) \<and> observedAt sg = Date ob"
    using that by (simp add: validExpires_def)
  show "validCreation sg" if "created sg = None"
    using that by (simp add: validCreation_def)
  show "validExpires sg" if "expires sg = None"
    using that by (simp add: validExpires_def)
  show "CREATED_SLACK = 60000" by (simp add: CREATED_SLACK_def)
  show "EXPIRES_SLACK = 60000" by (simp add: EXPIRES_SLACK_def)
  show "(1000000000000 + CREATED_SLACK) div 1000 - 1 = 1000000059"
    by (simp add: CREATED_SLACK_def)
  show "(1000000000000 + CREATED_SLACK) div 1000 + 1 = 1000000061"
    by (simp add: CREATED_SLACK_def)
  let ?sig = "base64_decode ''3UqQIVxNJfNm8E54n35RReP9Nv05a9dEZTxr/deog3g=''"
  let ?hs = "[''content-type'', ''(created)'', ''(request-target)'', ''host'', ''digest'']"
  have a: "fromHeader pf
          ''keyId=\"test\",algorithm=\"hs2019\",headers=\"content-type (created) (request-target) host digest\",created=1000000059,signature=\"3UqQIVxNJfNm8E54n35RReP9Nv05a9dEZTxr/deog3g=\"''
          (Some (Date 1000000000000)) =
        Inr \<lparr> keyId = ''test'', signature = ?sig, headers = ?hs,
              signatureAlgorithm = Some HS2019, created = Some (Date 1000000059000),
              expires = None, observedAt = Date 1000000000000 \<rparr>"
    by code_simp
  show "\<exists>s. fromHeader pf
          ''keyId=\"test\",algorithm=\"hs2019\",headers=\"content-type (created) (request-target) host digest\",created=1000000059,signature=\"3UqQIVxNJfNm8E54n35RReP9Nv05a9dEZTxr/deog3g=\"''
          (Some (Date 1000000000000)) = Inr s
        \<and> created s = Some (Date 1000000059000) \<and> observedAt s = Date 1000000000000
        \<and> validCreation s"
    unfolding a by (simp add: validCreation_def CREATED_SLACK_def)
  have b: "fromHeader pf
          ''keyId=\"test\",algorithm=\"hs2019\",headers=\"content-type (created) (request-target) host digest\",created=1000000061,signature=\"3UqQIVxNJfNm8E54n35RReP9Nv05a9dEZTxr/deog3g=\"''
          (Some (Date 1000000000000)) =
        Inr \<lparr> keyId = ''test'', signature = ?sig, headers = ?hs,
              signatureAlgorithm = Some HS2019, created = Some (Date 1000000061000),
              expires = None, observedAt = Date 1000000000000 \<rparr>"
    by code_simp
  show "\<exists>s. fromHeader pf
          ''keyId=\"test\",algorithm=\"hs2019\",headers=\"content-type (created) (request-target) host digest\",created=1000000061,signature=\"3UqQIVxNJfNm8E54n35RReP9Nv05a9dEZTxr/deog3g=\"''
          (Some (Date 1000000000000)) = Inr s
        \<and> created s = Some (Date 1000000061000) \<and> observedAt s = Date 1000000000000
        \<and> \<not> validCreation s"
    unfolding b by (simp add: validCreation_def CREATED_SLACK_def)
qed

text \<open>The theorem of C7 on two signature records, one with both timestamps and one with none.\<close>

theorem slack_windows_witness:
  "created \<lparr> keyId = ''test'', signature = [1], headers = [''(created)''],
             signatureAlgorithm = None, created = Some (Date 1000000059000),
             expires = Some (Date 999999940001), observedAt = Date 1000000000000 \<rparr>
     = Some (Date 1000000059000)
   \<and> (1000000059000 :: int) - 1000000000000 < CREATED_SLACK
   \<and> validCreation \<lparr> keyId = ''test'', signature = [1], headers = [''(created)''],
             signatureAlgorithm = None, created = Some (Date 1000000059000),
             expires = Some (Date 999999940001), observedAt = Date 1000000000000 \<rparr>
   \<and> (1000000000000 :: int) - 999999940001 < EXPIRES_SLACK
   \<and> validExpires \<lparr> keyId = ''test'', signature = [1], headers = [''(created)''],
             signatureAlgorithm = None, created = Some (Date 1000000059000),
             expires = Some (Date 999999940001), observedAt = Date 1000000000000 \<rparr>
   \<and> validCreation \<lparr> keyId = ''test'', signature = [1], headers = [''(created)''],
             signatureAlgorithm = None, created = None,
             expires = None, observedAt = Date 1000000000000 \<rparr>
   \<and> validExpires \<lparr> keyId = ''test'', signature = [1], headers = [''(created)''],
             signatureAlgorithm = None, created = None,
             expires = None, observedAt = Date 1000000000000 \<rparr>"
proof -
  let ?sg = "\<lparr> keyId = ''test'', signature = [1 :: byte], headers = [''(created)''],
             signatureAlgorithm = None, created = Some (Date 1000000059000),
             expires = Some (Date 999999940001), observedAt = Date 1000000000000 \<rparr>"
  let ?sn = "\<lparr> keyId = ''test'', signature = [1 :: byte], headers = [''(created)''],
             signatureAlgorithm = None, created = None,
             expires = None, observedAt = Date 1000000000000 \<rparr>"
  note t = slack_windows [where sg = ?sg and c = 1000000059000 and ob = 1000000000000
                            and e = 999999940001]
  note n = slack_windows [where sg = ?sn]
  have h: "created ?sg = Some (Date 1000000059000) \<and> observedAt ?sg = Date 1000000000000"
    "expires ?sg = Some (Date 999999940001) \<and> observedAt ?sg = Date 1000000000000"
    "created ?sn = None" "expires ?sn = None"
    by simp_all
  have v: "(1000000059000 :: int) - 1000000000000 < CREATED_SLACK"
    "(1000000000000 :: int) - 999999940001 < EXPIRES_SLACK"
    by (simp_all add: CREATED_SLACK_def EXPIRES_SLACK_def)
  have "validCreation ?sg" using t [THEN conjunct1] h(1) v(1) by blast
  moreover have "validExpires ?sg" using t [THEN conjunct2, THEN conjunct1] h(2) v(2) by blast
  moreover have "validCreation ?sn"
    using n [THEN conjunct2, THEN conjunct2, THEN conjunct1] h(3) by blast
  moreover have "validExpires ?sn"
    using n [THEN conjunct2, THEN conjunct2, THEN conjunct2, THEN conjunct1] h(4) by blast
  ultimately show ?thesis using h v by simp
qed

section \<open>Signing and verifying with a key\<close>

lemma split_chr_hd_takeWhile:
  "\<exists>ps. split_chr c s = takeWhile (\<lambda>x. x \<noteq> c) s # ps"
  by (induction s) (auto split: list.splits)

lemma split_chr_no_sep: "c \<notin> set s \<Longrightarrow> split_chr c s = [s]"
  by (induction s) auto

lemma base64_decode_takeWhile:
  "base64_decode (takeWhile (\<lambda>x. x \<noteq> CHR ''='') s) = base64_decode s"
  by (simp add: base64_decode_def)

text \<open>
  Claim C2, as the code has it.  \<open>HmacSignatureKey.verify\<close> on a MAC whose length differs
  from the length of the computed MAC fails with a verification error.
  \<open>verifyDigestHeader\<close> on a digest whose decoded length differs from the length of the
  recomputed digest fails with the \<open>RangeError\<close> of \<open>timingSafeEqual\<close>, which it does not
  catch: here the code departs from the claim.
\<close>

theorem length_mismatch_errors:
  "(length mac \<noteq> length (fst (HmacSignatureKey_sign pf k buf log)) \<longrightarrow>
      fst (HmacSignatureKey_verify pf k buf mac log) =
        Inl (VerificationError ''signature length mismatch''))
   \<and> (toLowerCase alg = toLowerCase (DigestAlgorithm_str (digestAlgorithm k))
        \<and> CHR ''='' \<notin> set alg
        \<and> length (base64_decode enc) \<noteq> length (digestBuffer pf k body) \<longrightarrow>
      verifyDigestHeader pf k body (alg @ ''='' @ enc) =
        Inl (RangeError ''Input buffers must have the same byte length''))"
proof (intro conjI impI)
  assume "length mac \<noteq> length (fst (HmacSignatureKey_sign pf k buf log))"
  then show "fst (HmacSignatureKey_verify pf k buf mac log) =
        Inl (VerificationError ''signature length mismatch'')"
    by (auto simp: HmacSignatureKey_verify_def timingSafeEqual_def split: prod.splits)
next
  assume a: "toLowerCase alg = toLowerCase (DigestAlgorithm_str (digestAlgorithm k))
        \<and> CHR ''='' \<notin> set alg
        \<and> length (base64_decode enc) \<noteq> length (digestBuffer pf k body)"
  obtain ps where ps: "split_chr (CHR ''='') enc = takeWhile (\<lambda>x. x \<noteq> CHR ''='') enc # ps"
    using split_chr_hd_takeWhile by blast
  have "split_chr (CHR ''='') (alg @ ''='' @ enc) = alg # split_chr (CHR ''='') enc"
    using a split_chr_append [of "CHR ''=''" alg enc] by (simp add: split_chr_no_sep)
  then have t: "take 2 (split_chr (CHR ''='') (alg @ ''='' @ enc)) =
                 [alg, takeWhile (\<lambda>x. x \<noteq> CHR ''='') enc]"
    using ps by simp
  show "verifyDigestHeader pf k body (alg @ ''='' @ enc) =
        Inl (RangeError ''Input buffers must have the same byte length'')"
    unfolding verifyDigestHeader_def t Let_def
    using a by (simp add: base64_decode_takeWhile timingSafeEqual_def)
qed

text \<open>The theorem of C2 on a three-byte MAC and on the digest header \<open>SHA-256=AAAA\<close>.\<close>

theorem length_mismatch_errors_witness:
  "length [0, 0, 0 :: byte] \<noteq>
     length (fst (HmacSignatureKey_sign standin_platform example_key (utf8_encode ''{}'') []))
   \<and> fst (HmacSignatureKey_verify standin_platform example_key (utf8_encode ''{}'') [0, 0, 0] []) =
        Inl (VerificationError ''signature length mismatch'')
   \<and> length (base64_decode ''AAAA'') \<noteq>
        length (digestBuffer standin_platform example_key (utf8_encode ''{}''))
   \<and> verifyDigestHeader standin_platform example_key (utf8_encode ''{}'') ''SHA-256=AAAA'' =
        Inl (RangeError ''Input buffers must have the same byte length'')"
proof -
  have h1: "length [0, 0, 0 :: byte] \<noteq>
     length (fst (HmacSignatureKey_sign standin_platform example_key (utf8_encode ''{}'') []))"
    by code_simp
  have h2: "toLowerCase ''SHA-256'' = toLowerCase (DigestAlgorithm_str (digestAlgorithm example_key))
        \<and> CHR ''='' \<notin> set ''SHA-256''
        \<and> length (base64_decode ''AAAA'') \<noteq>
            length (digestBuffer standin_platform example_key (utf8_encode ''{}''))"
    by code_simp
  note t = length_mismatch_errors [where pf = standin_platform and k = example_key
      and buf = "utf8_encode ''{}''" and body = "utf8_encode ''{}''" and log = "[]"
      and mac = "[0, 0, 0]" and alg = "''SHA-256''" and enc = "''AAAA''"]
  have "fst (HmacSignatureKey_verify standin_platform example_key (utf8_encode ''{}'') [0, 0, 0] []) =
        Inl (VerificationError ''signature length mismatch'')"
    using t [THEN conjunct1] h1 by blast
  moreover have "verifyDigestHeader standin_platform example_key (utf8_encode ''{}'')
        (''SHA-256'' @ ''='' @ ''AAAA'') =
        Inl (RangeError ''Input buffers must have the same byte length'')"
    using t [THEN conjunct2] h2 by blast
  ultimately show ?thesis using h1 h2 by simp
qed

lemma verifyMessage_scheme_mismatch:
  assumes "MessageContext_getSignature pf ctx None = Inr (Some refSig)"
      and "signatureAlgorithm refSig = Some a" and "a \<noteq> key_signatureAlgorithm k"
  shows "verifyMessage pf k ctx spec log =
           (Inl (VerificationError (''incorrect signature scheme used for key ''
                   @ [CHR 0x27] @ key_id k @ [CHR 0x27])), log)"
  using assms by (auto simp: verifyMessage_def)

lemma verifyMessage_no_algorithm_log:
  assumes "MessageContext_getSignature pf ctx None = Inr (Some refSig)"
      and "signatureAlgorithm refSig = None"
      and "canonicalString ctx (headers refSig) = Inr payload"
  shows "snd (verifyMessage pf k ctx spec log) = log @ [utf8_encode payload]"
  using assms
  by (auto simp: verifyMessage_def HmacSignatureKey_verify_def HmacSignatureKey_sign_def Let_def
           split: prod.splits sum.splits)

lemma verifyMessage_no_algorithm_canonical_error:
  assumes "MessageContext_getSignature pf ctx None = Inr (Some refSig)"
      and "signatureAlgorithm refSig = None"
      and "canonicalString ctx (headers refSig) = Inl e"
  shows "verifyMessage pf k ctx spec log = (Inl e, log)"
  using assms by (auto simp: verifyMessage_def)

text \<open>
  Claim C3.  When the extracted signature declares an algorithm other than the key's scheme,
  \<open>verifyRequest\<close> and \<open>verifyResponse\<close> fail with a verification error and the log of
  MAC invocations is unchanged: the MAC primitive was not invoked.  When the signature
  declares no algorithm, verification goes on: the canonical string is built and the MAC
  primitive is invoked on exactly its UTF-8 bytes; only a failure to build the canonical
  string is reported before that.
\<close>

theorem algorithm_agreement_before_mac:
  "(MessageContext_getSignature pf ctx None = Inr (Some refSig)
      \<and> signatureAlgorithm refSig = Some a \<and> a \<noteq> key_signatureAlgorithm k \<longrightarrow>
        verifyRequest pf k ctx log =
          (Inl (VerificationError (''incorrect signature scheme used for key ''
                  @ [CHR 0x27] @ key_id k @ [CHR 0x27])), log)
      \<and> verifyResponse pf k ctx log =
          (Inl (VerificationError (''incorrect signature scheme used for key ''
                  @ [CHR 0x27] @ key_id k @ [CHR 0x27])), log))
   \<and> (MessageContext_getSignature pf ctx None = Inr (Some refSig)
      \<and> signatureAlgorithm refSig = None \<longrightarrow>
        (case canonicalString ctx (headers refSig) of
           Inr payload \<Rightarrow>
             snd (verifyRequest pf k ctx log) = log @ [utf8_encode payload]
             \<and> snd (verifyResponse pf k ctx log) = log @ [utf8_encode payload]
         | Inl e \<Rightarrow>
             verifyRequest pf k ctx log = (Inl e, log)
             \<and> verifyResponse pf k ctx log = (Inl e, log)))"
proof (intro conjI impI)
  assume a: "MessageContext_getSignature pf ctx None = Inr (Some refSig)
      \<and> signatureAlgorithm refSig = Some a \<and> a \<noteq> key_signatureAlgorithm k"
  then show "verifyRequest pf k ctx log =
          (Inl (VerificationError (''incorrect signature scheme used for key ''
                  @ [CHR 0x27] @ key_id k @ [CHR 0x27])), log)"
    unfolding verifyRequest_def by (intro verifyMessage_scheme_mismatch [of _ _ refSig a]) simp_all
  from a show "verifyResponse pf k ctx log =
          (Inl (VerificationError (''incorrect signature scheme used for key ''
                  @ [CHR 0x27] @ key_id k @ [CHR 0x27])), log)"
    unfolding verifyResponse_def by (intro verifyMessage_scheme_mismatch [of _ _ refSig a]) simp_all
next
  assume a: "MessageContext_getSignature pf ctx None = Inr (Some refSig)
      \<and> signatureAlgorithm refSig = None"
  show "case canonicalString ctx (headers refSig) of
           Inr payload \<Rightarrow>
             snd (verifyRequest pf k ctx log) = log @ [utf8_encode payload]
             \<and> snd (verifyResponse pf k ctx log) = log @ [utf8_encode payload]
         | Inl e \<Rightarrow>
             verifyRequest pf k ctx log = (Inl e, log)
             \<and> verifyResponse pf k ctx log = (Inl e, log)"
  proof (cases "canonicalString ctx (headers refSig)")
    case (Inl e)
    with a show ?thesis
      by (simp add: verifyRequest_def verifyResponse_def
            verifyMessage_no_algorithm_canonical_error [where refSig = refSig])
  next
    case (Inr payload)
    with a show ?thesis
      by (simp add: verifyRequest_def verifyResponse_def
            verifyMessage_no_algorithm_log [where refSig = refSig])
  qed
qed

text \<open>
  The theorem of C3 on a request whose signature declares \<open>rsa-sha256\<close> to an \<open>hs2019\<close> key,
  and on one whose signature declares no algorithm.
\<close>

theorem algorithm_agreement_before_mac_witness:
  "verifyRequest standin_platform example_key
      (withSignature example_request
         ''keyId=\"test\",algorithm=\"rsa-sha256\",headers=\"host\",signature=\"EG1vYy5yYWJvb2YgOnRzb2gBAgMEAAAAAAAAAAAAAAA=\"'')
      [] =
     (Inl (VerificationError (''incorrect signature scheme used for key '' @ [CHR 0x27] @ ''test'' @ [CHR 0x27])), [])
   \<and> canonicalString
        (withSignature example_request
           ''keyId=\"test\",headers=\"host\",signature=\"EG1vYy5yYWJvb2YgOnRzb2gBAgMEAAAAAAAAAAAAAAA=\"'')
        [''host''] = Inr ''host: foobar.com''
   \<and> snd (verifyResponse standin_platform example_key
        (withSignature example_request
           ''keyId=\"test\",headers=\"host\",signature=\"EG1vYy5yYWJvb2YgOnRzb2gBAgMEAAAAAAAAAAAAAAA=\"'')
        []) = [utf8_encode ''host: foobar.com'']"
proof -
  let ?c1 = "withSignature example_request
         ''keyId=\"test\",algorithm=\"rsa-sha256\",headers=\"host\",signature=\"EG1vYy5yYWJvb2YgOnRzb2gBAgMEAAAAAAAAAAAAAAA=\"''"
  let ?c2 = "withSignature example_request
           ''keyId=\"test\",headers=\"host\",signature=\"EG1vYy5yYWJvb2YgOnRzb2gBAgMEAAAAAAAAAAAAAAA=\"''"
  let ?s1 = "\<lparr> keyId = ''test'',
               signature = base64_decode ''EG1vYy5yYWJvb2YgOnRzb2gBAgMEAAAAAAAAAAAAAAA='',
               headers = [''host''], signatureAlgorithm = Some RSA_SHA256,
               created = None, expires = None, observedAt = Date 1000000000000 \<rparr>"
  let ?s2 = "\<lparr> keyId = ''test'',
               signature = base64_decode ''EG1vYy5yYWJvb2YgOnRzb2gBAgMEAAAAAAAAAAAAAAA='',
               headers = [''host''], signatureAlgorithm = None,
               created = None, expires = None, observedAt = Date 1000000000000 \<rparr>"
  have g1: "MessageContext_getSignature standin_platform ?c1 None = Inr (Some ?s1)"
    by code_simp
  have g2: "MessageContext_getSignature standin_platform ?c2 None = Inr (Some ?s2)"
    by code_simp
  have h1: "MessageContext_getSignature standin_platform ?c1 None = Inr (Some ?s1)
      \<and> signatureAlgorithm ?s1 = Some RSA_SHA256
      \<and> RSA_SHA256 \<noteq> key_signatureAlgorithm example_key"
    using g1 by (simp add: example_key_def)
  have h2: "MessageContext_getSignature standin_platform ?c2 None = Inr (Some ?s2)
      \<and> signatureAlgorithm ?s2 = None"
    using g2 by simp
  have c: "canonicalString ?c2 [''host''] = Inr ''host: foobar.com''"
    by code_simp
  have "verifyRequest standin_platform example_key ?c1 [] =
     (Inl (VerificationError (''incorrect signature scheme used for key ''
             @ [CHR 0x27] @ key_id example_key @ [CHR 0x27])), [])"
    using algorithm_agreement_before_mac
            [where pf = standin_platform and ctx = ?c1 and refSig = ?s1 and a = RSA_SHA256
               and k = example_key and log = "[]", THEN conjunct1] h1
    by blast
  moreover have "case canonicalString ?c2 (headers ?s2) of
           Inr payload \<Rightarrow>
             snd (verifyRequest standin_platform example_key ?c2 []) = [] @ [utf8_encode payload]
             \<and> snd (verifyResponse standin_platform example_key ?c2 []) = [] @ [utf8_encode payload]
         | Inl e \<Rightarrow>
             verifyRequest standin_platform example_key ?c2 [] = (Inl e, [])
             \<and> verifyResponse standin_platform example_key ?c2 [] = (Inl e, [])"
    using algorithm_agreement_before_mac
            [where pf = standin_platform and ctx = ?c2 and refSig = ?s2
               and k = example_key and log = "[]", THEN conjunct2] h2
    by blast
  ultimately show ?thesis using c by (simp add: example_key_def)
qed

lemma signMessage_Inr:
  assumes "signMessage pf k ctx spec log = (Inr s, log')"
  shows "\<exists>listed payload. headerList spec ''sign'' = Inr listed
      \<and> canonicalString ctx
            (if truthy (getProp (key_options k) ''calculateDigest'') \<and> ''digest'' \<notin> set listed
             then listed @ [''digest''] else listed) = Inr payload
      \<and> log' = log @ [utf8_encode payload]
      \<and> s = ''keyId='' @ [CHR 0x22] @ key_id k @ [CHR 0x22]
             @ '',algorithm='' @ [CHR 0x22]
             @ SignatureAlgorithm_str (key_signatureAlgorithm k) @ [CHR 0x22]
             @ '',headers='' @ [CHR 0x22]
             @ join_str '' ''
                 (if truthy (getProp (key_options k) ''calculateDigest'') \<and> ''digest'' \<notin> set listed
                  then listed @ [''digest''] else listed) @ [CHR 0x22]
             @ '',signature='' @ [CHR 0x22]
             @ base64_encode (fst (HmacSignatureKey_sign pf k (utf8_encode payload) log))
             @ [CHR 0x22]"
proof -
  from assms obtain listed where l: "headerList spec ''sign'' = Inr listed"
    by (cases "headerList spec ''sign''") (auto simp: signMessage_def)
  let ?hs = "if truthy (getProp (key_options k) ''calculateDigest'') \<and> ''digest'' \<notin> set listed
             then listed @ [''digest''] else listed"
  from assms l obtain payload where p: "canonicalString ctx ?hs = Inr payload"
    by (cases "canonicalString ctx ?hs") (auto simp: signMessage_def Let_def)
  from assms l p show ?thesis
    by (auto simp: signMessage_def Let_def HmacSignatureKey_sign_def split: prod.splits)
qed

lemma verifyMessage_True:
  assumes "fst (verifyMessage pf k ctx spec log) = Inr True"
      and "MessageContext_getSignature pf ctx None = Inr (Some refSig)"
      and "headerList spec ''verify'' = Inr required"
  shows "set required \<subseteq> set (headers refSig)"
proof -
  from assms have "filter (\<lambda>header. header \<notin> set (headers refSig)) required = []"
    by (auto simp: verifyMessage_def Let_def split: sum.splits prod.splits if_splits)
  then show ?thesis by (auto simp: filter_empty_conv)
qed

lemma verifyMessage_missing:
  assumes "MessageContext_getSignature pf ctx None = Inr (Some refSig)"
      and "signatureAlgorithm refSig = None \<or> signatureAlgorithm refSig = Some (key_signatureAlgorithm k)"
      and "canonicalString ctx (headers refSig) = Inr payload"
      and "fst (HmacSignatureKey_verify pf k (utf8_encode payload) (signature refSig) log) = Inr True"
      and "headerList spec ''verify'' = Inr required"
      and "\<not> set required \<subseteq> set (headers refSig)"
  shows "fst (verifyMessage pf k ctx spec log) =
           Inl (VerificationError (''signature missing required headers: ''
                  @ join_str '', '' (filter (\<lambda>header. header \<notin> set (headers refSig)) required)))"
proof -
  from assms(6) have "filter (\<lambda>header. header \<notin> set (headers refSig)) required \<noteq> []"
    by (auto simp: filter_empty_conv)
  with assms(1-5) show ?thesis
    by (auto simp: verifyMessage_def Let_def split: sum.splits prod.splits)
qed

text \<open>
  Claim C4, as the code has it.  (a) With \<open>calculateDigest\<close> on, a successful \<open>signRequest\<close>
  or \<open>signResponse\<close> signs a header list that contains \<open>digest\<close>: the names tagged \<open>sign\<close>
  or \<open>true\<close>, with \<open>digest\<close> appended when it is not among them.  (b) Verification does
  not read the options beyond the header specification: it returns true only if every name
  tagged \<open>verify\<close> or \<open>true\<close> is in the signature's declared list, and once the MAC has
  verified it fails with the verification error that lists the missing names otherwise.
\<close>

theorem digest_option:
  "(truthy (getProp (key_options k) ''calculateDigest'')
      \<and> signMessage pf k ctx spec log = (Inr s, log') \<longrightarrow>
      (\<exists>listed payload.
         headerList spec ''sign'' = Inr listed
         \<and> canonicalString ctx (if ''digest'' \<in> set listed then listed else listed @ [''digest''])
             = Inr payload
         \<and> log' = log @ [utf8_encode payload]
         \<and> s = ''keyId='' @ [CHR 0x22] @ key_id k @ [CHR 0x22]
               @ '',algorithm='' @ [CHR 0x22]
               @ SignatureAlgorithm_str (key_signatureAlgorithm k) @ [CHR 0x22]
               @ '',headers='' @ [CHR 0x22]
               @ join_str '' '' (if ''digest'' \<in> set listed then listed else listed @ [''digest''])
               @ [CHR 0x22]
               @ '',signature='' @ [CHR 0x22]
               @ base64_encode (fst (HmacSignatureKey_sign pf k (utf8_encode payload) log))
               @ [CHR 0x22]))
   \<and> signRequest pf k ctx log = signMessage pf k ctx (getProp (key_options k) ''requestHeaders'') log
   \<and> signResponse pf k ctx log = signMessage pf k ctx (getProp (key_options k) ''responseHeaders'') log
   \<and> verifyRequest pf k ctx log = verifyMessage pf k ctx (getProp (key_options k) ''requestHeaders'') log
   \<and> verifyResponse pf k ctx log = verifyMessage pf k ctx (getProp (key_options k) ''responseHeaders'') log
   \<and> verifyMessage pf (k \<lparr> key_options := opts \<rparr>) ctx spec log = verifyMessage pf k ctx spec log
   \<and> (MessageContext_getSignature pf ctx None = Inr (Some refSig)
        \<and> headerList spec ''verify'' = Inr required
        \<and> fst (verifyMessage pf k ctx spec log) = Inr True \<longrightarrow>
      set required \<subseteq> set (headers refSig))
   \<and> (MessageContext_getSignature pf ctx None = Inr (Some refSig)
        \<and> (signatureAlgorithm refSig = None
            \<or> signatureAlgorithm refSig = Some (key_signatureAlgorithm k))
        \<and> canonicalString ctx (headers refSig) = Inr canonical
        \<and> fst (HmacSignatureKey_verify pf k (utf8_encode canonical) (signature refSig) log) = Inr True
        \<and> headerList spec ''verify'' = Inr required
        \<and> \<not> set required \<subseteq> set (headers refSig) \<longrightarrow>
      fst (verifyMessage pf k ctx spec log) =
        Inl (VerificationError (''signature missing required headers: ''
               @ join_str '', '' (filter (\<lambda>header. header \<notin> set (headers refSig)) required))))"
proof (intro conjI impI)
  assume a: "truthy (getProp (key_options k) ''calculateDigest'')
      \<and> signMessage pf k ctx spec log = (Inr s, log')"
  then have t: "truthy (getProp (key_options k) ''calculateDigest'')" by simp
  from a signMessage_Inr [of pf k ctx spec log s log']
  show "\<exists>listed payload.
         headerList spec ''sign'' = Inr listed
         \<and> canonicalString ctx (if ''digest'' \<in> set listed then listed else listed @ [''digest''])
             = Inr payload
         \<and> log' = log @ [utf8_encode payload]
         \<and> s = ''keyId='' @ [CHR 0x22] @ key_id k @ [CHR 0x22]
               @ '',algorithm='' @ [CHR 0x22]
               @ SignatureAlgorithm_str (key_signatureAlgorithm k) @ [CHR 0x22]
               @ '',headers='' @ [CHR 0x22]
               @ join_str '' '' (if ''digest'' \<in> set listed then listed else listed @ [''digest''])
               @ [CHR 0x22]
               @ '',signature='' @ [CHR 0x22]
               @ base64_encode (fst (HmacSignatureKey_sign pf k (utf8_encode payload) log))
               @ [CHR 0x22]"
    by (auto simp: t split: if_splits)
next
  show "verifyMessage pf (k \<lparr> key_options := opts \<rparr>) ctx spec log = verifyMessage pf k ctx spec log"
  proof -
    have "HmacSignatureKey_verify pf (k \<lparr> key_options := opts \<rparr>) = HmacSignatureKey_verify pf k"
      by (intro ext) (simp add: HmacSignatureKey_verify_def HmacSignatureKey_sign_def)
    then show ?thesis
      by (simp add: verifyMessage_def split: sum.splits option.splits)
  qed
next
  assume "MessageContext_getSignature pf ctx None = Inr (Some refSig)
        \<and> headerList spec ''verify'' = Inr required
        \<and> fst (verifyMessage pf k ctx spec log) = Inr True"
  then show "set required \<subseteq> set (headers refSig)"
    using verifyMessage_True by blast
next
  assume "MessageContext_getSignature pf ctx None = Inr (Some refSig)
        \<and> (signatureAlgorithm refSig = None
            \<or> signatureAlgorithm refSig = Some (key_signatureAlgorithm k))
        \<and> canonicalString ctx (headers refSig) = Inr canonical
        \<and> fst (HmacSignatureKey_verify pf k (utf8_encode canonical) (signature refSig) log) = Inr True
        \<and> headerList spec ''verify'' = Inr required
        \<and> \<not> set required \<subseteq> set (headers refSig)"
  then show "fst (verifyMessage pf k ctx spec log) =
        Inl (VerificationError (''signature missing required headers: ''
               @ join_str '', '' (filter (\<lambda>header. header \<notin> set (headers refSig)) required)))"
    using verifyMessage_missing by blast
qed (simp_all add: signRequest_def signResponse_def verifyRequest_def verifyResponse_def)

text \<open>
  Claim C4 (b) as stated fails: with \<open>calculateDigest\<close> on, a request whose signature covers
  \<open>(request-target)\<close> and \<open>host\<close> but not \<open>digest\<close> verifies.
\<close>

theorem digest_not_required_counterexample:
  "truthy (getProp (key_options example_key) ''calculateDigest'')
   \<and> MessageContext_getSignature standin_platform
        (withSignature example_request
           ''keyId=\"test\",algorithm=\"hs2019\",headers=\"(request-target) host\",signature=\"KW1vYy5yYWJvb2YgOnRzb2gKLyB0c29wIDopdGVncmE=\"'')
        None =
       Inr (Some \<lparr> keyId = ''test'',
               signature = base64_decode ''KW1vYy5yYWJvb2YgOnRzb2gKLyB0c29wIDopdGVncmE='',
               headers = [''(request-target)'', ''host''], signatureAlgorithm = Some HS2019,
               created = None, expires = None, observedAt = Date 1000000000000 \<rparr>)
   \<and> ''digest'' \<notin> set [''(request-target)'', ''host'']
   \<and> fst (verifyRequest standin_platform example_key
        (withSignature example_request
           ''keyId=\"test\",algorithm=\"hs2019\",headers=\"(request-target) host\",signature=\"KW1vYy5yYWJvb2YgOnRzb2gKLyB0c29wIDopdGVncmE=\"'')
        []) = Inr True"
  by code_simp

text \<open>The theorem of C4 on the example request, signed and then verified.\<close>

theorem digest_option_witness:
  "truthy (getProp (key_options example_key) ''calculateDigest'')
   \<and> signRequest standin_platform example_key example_request [] =
       (Inr ''keyId=\"test\",algorithm=\"hs2019\",headers=\"(request-target) host digest\",signature=\"Zj1ZM2tYNWFoK1lmcHV4b3BGNDNvajl3OWNiN3Uzd2Q=\"'',
        [utf8_encode (''(request-target): post /'' @ [CHR 0x0A] @ ''host: foobar.com'' @ [CHR 0x0A]
           @ ''digest: SHA-256=Qm/ATwS/j9tYMdw3u7bc9w9jo34FpoxupfY+ha5Xk3Y='')])
   \<and> (\<exists>listed payload.
         headerList (getProp (key_options example_key) ''requestHeaders'') ''sign'' = Inr listed
         \<and> canonicalString example_request
              (if ''digest'' \<in> set listed then listed else listed @ [''digest'']) = Inr payload
         \<and> ''keyId=\"test\",algorithm=\"hs2019\",headers=\"(request-target) host digest\",signature=\"Zj1ZM2tYNWFoK1lmcHV4b3BGNDNvajl3OWNiN3Uzd2Q=\"'' =
             ''keyId='' @ [CHR 0x22] @ key_id example_key @ [CHR 0x22]
               @ '',algorithm='' @ [CHR 0x22]
               @ SignatureAlgorithm_str (key_signatureAlgorithm example_key) @ [CHR 0x22]
               @ '',headers='' @ [CHR 0x22]
               @ join_str '' '' (if ''digest'' \<in> set listed then listed else listed @ [''digest''])
               @ [CHR 0x22]
               @ '',signature='' @ [CHR 0x22]
               @ base64_encode (fst (HmacSignatureKey_sign standin_platform example_key
                                       (utf8_encode payload) []))
               @ [CHR 0x22])
   \<and> fst (verifyRequest standin_platform example_key (withSignature example_request ''keyId=\"test\",algorithm=\"hs2019\",headers=\"(request-target) host digest\",signature=\"Zj1ZM2tYNWFoK1lmcHV4b3BGNDNvajl3OWNiN3Uzd2Q=\"'') [])
       = Inr True
   \<and> set [''(request-target)'', ''host''] \<subseteq> set [''(request-target)'', ''host'', ''digest'']
   \<and> fst (verifyRequest standin_platform example_key (withSignature example_request ''keyId=\"test\",algorithm=\"hs2019\",headers=\"host\",signature=\"EG1vYy5yYWJvb2YgOnRzb2gBAgMEAAAAAAAAAAAAAAA=\"'') [])
       = Inl (VerificationError ''signature missing required headers: (request-target)'')"
proof -
  let ?spec = "getProp (key_options example_key) ''requestHeaders''"
  let ?p3 = "''(request-target): post /'' @ [CHR 0x0A] @ ''host: foobar.com'' @ [CHR 0x0A]
           @ ''digest: SHA-256=Qm/ATwS/j9tYMdw3u7bc9w9jo34FpoxupfY+ha5Xk3Y=''"
  let ?c3 = "withSignature example_request ''keyId=\"test\",algorithm=\"hs2019\",headers=\"(request-target) host digest\",signature=\"Zj1ZM2tYNWFoK1lmcHV4b3BGNDNvajl3OWNiN3Uzd2Q=\"''"
  let ?c1 = "withSignature example_request ''keyId=\"test\",algorithm=\"hs2019\",headers=\"host\",signature=\"EG1vYy5yYWJvb2YgOnRzb2gBAgMEAAAAAAAAAAAAAAA=\"''"
  let ?r3 = "\<lparr> keyId = ''test'',
               signature = base64_decode ''Zj1ZM2tYNWFoK1lmcHV4b3BGNDNvajl3OWNiN3Uzd2Q='',
               headers = [''(request-target)'', ''host'', ''digest''],
               signatureAlgorithm = Some HS2019,
               created = None, expires = None, observedAt = Date 1000000000000 \<rparr>"
  let ?r1 = "\<lparr> keyId = ''test'',
               signature = base64_decode ''EG1vYy5yYWJvb2YgOnRzb2gBAgMEAAAAAAAAAAAAAAA='',
               headers = [''host''], signatureAlgorithm = Some HS2019,
               created = None, expires = None, observedAt = Date 1000000000000 \<rparr>"
  note T = digest_option [where pf = standin_platform and k = example_key and log = "[]"]
  have t: "truthy (getProp (key_options example_key) ''calculateDigest'')" by code_simp
  have e: "signMessage standin_platform example_key example_request ?spec [] =
             (Inr ''keyId=\"test\",algorithm=\"hs2019\",headers=\"(request-target) host digest\",signature=\"Zj1ZM2tYNWFoK1lmcHV4b3BGNDNvajl3OWNiN3Uzd2Q=\"'', [utf8_encode ?p3])"
    by code_simp
  have a: "\<exists>listed payload.
         headerList ?spec ''sign'' = Inr listed
         \<and> canonicalString example_request
              (if ''digest'' \<in> set listed then listed else listed @ [''digest'']) = Inr payload
         \<and> [utf8_encode ?p3] = [] @ [utf8_encode payload]
         \<and> ''keyId=\"test\",algorithm=\"hs2019\",headers=\"(request-target) host digest\",signature=\"Zj1ZM2tYNWFoK1lmcHV4b3BGNDNvajl3OWNiN3Uzd2Q=\"'' =
             ''keyId='' @ [CHR 0x22] @ key_id example_key @ [CHR 0x22]
               @ '',algorithm='' @ [CHR 0x22]
               @ SignatureAlgorithm_str (key_signatureAlgorithm example_key) @ [CHR 0x22]
               @ '',headers='' @ [CHR 0x22]
               @ join_str '' '' (if ''digest'' \<in> set listed then listed else listed @ [''digest''])
               @ [CHR 0x22]
               @ '',signature='' @ [CHR 0x22]
               @ base64_encode (fst (HmacSignatureKey_sign standin_platform example_key
                                       (utf8_encode payload) []))
               @ [CHR 0x22]"
    using T [where ctx = example_request and spec = ?spec and s = "''keyId=\"test\",algorithm=\"hs2019\",headers=\"(request-target) host digest\",signature=\"Zj1ZM2tYNWFoK1lmcHV4b3BGNDNvajl3OWNiN3Uzd2Q=\"''"
               and log' = "[utf8_encode ?p3]", THEN conjunct1] t e
    by blast
  have sr: "signRequest standin_platform example_key example_request [] =
             (Inr ''keyId=\"test\",algorithm=\"hs2019\",headers=\"(request-target) host digest\",signature=\"Zj1ZM2tYNWFoK1lmcHV4b3BGNDNvajl3OWNiN3Uzd2Q=\"'', [utf8_encode ?p3])"
    using e by (simp add: signRequest_def)
  have g3: "MessageContext_getSignature standin_platform ?c3 None = Inr (Some ?r3)" by code_simp
  have g1: "MessageContext_getSignature standin_platform ?c1 None = Inr (Some ?r1)" by code_simp
  have req: "headerList ?spec ''verify'' = Inr [''(request-target)'', ''host'']" by code_simp
  have v3: "fst (verifyMessage standin_platform example_key ?c3 ?spec []) = Inr True" by code_simp
  have sub: "set [''(request-target)'', ''host''] \<subseteq> set (headers ?r3)"
    using T [where ctx = ?c3 and spec = ?spec and refSig = ?r3
               and required = "[''(request-target)'', ''host'']",
             THEN conjunct2, THEN conjunct2, THEN conjunct2, THEN conjunct2, THEN conjunct2,
             THEN conjunct2, THEN conjunct1] g3 req v3
    by blast
  have c1: "canonicalString ?c1 (headers ?r1) = Inr ''host: foobar.com''" by code_simp
  have m1: "fst (HmacSignatureKey_verify standin_platform example_key
                   (utf8_encode ''host: foobar.com'') (signature ?r1) []) = Inr True"
    by code_simp
  have ns: "\<not> set [''(request-target)'', ''host''] \<subseteq> set (headers ?r1)" by simp
  have "fst (verifyMessage standin_platform example_key ?c1 ?spec []) =
        Inl (VerificationError (''signature missing required headers: ''
               @ join_str '', '' (filter (\<lambda>header. header \<notin> set (headers ?r1))
                                    [''(request-target)'', ''host''])))"
    using T [where ctx = ?c1 and spec = ?spec and refSig = ?r1
               and required = "[''(request-target)'', ''host'']"
               and canonical = "''host: foobar.com''",
             THEN conjunct2, THEN conjunct2, THEN conjunct2, THEN conjunct2, THEN conjunct2,
             THEN conjunct2, THEN conjunct2] g1 c1 m1 req ns
    by (simp add: example_key_def)
  then have v1: "fst (verifyRequest standin_platform example_key ?c1 []) =
       Inl (VerificationError ''signature missing required headers: (request-target)'')"
    by (simp add: verifyRequest_def)
  have v3': "fst (verifyRequest standin_platform example_key ?c3 []) = Inr True"
    using v3 by (simp add: verifyRequest_def)
  from a have a': "\<exists>listed payload.
         headerList ?spec ''sign'' = Inr listed
         \<and> canonicalString example_request
              (if ''digest'' \<in> set listed then listed else listed @ [''digest'']) = Inr payload
         \<and> ''keyId=\"test\",algorithm=\"hs2019\",headers=\"(request-target) host digest\",signature=\"Zj1ZM2tYNWFoK1lmcHV4b3BGNDNvajl3OWNiN3Uzd2Q=\"'' =
             ''keyId='' @ [CHR 0x22] @ key_id example_key @ [CHR 0x22]
               @ '',algorithm='' @ [CHR 0x22]
               @ SignatureAlgorithm_str (key_signatureAlgorithm example_key) @ [CHR 0x22]
               @ '',headers='' @ [CHR 0x22]
               @ join_str '' '' (if ''digest'' \<in> set listed then listed else listed @ [''digest''])
               @ [CHR 0x22]
               @ '',signature='' @ [CHR 0x22]
               @ base64_encode (fst (HmacSignatureKey_sign standin_platform example_key
                                       (utf8_encode payload) []))
               @ [CHR 0x22]"
    by blast
  from sub have sub': "set [''(request-target)'', ''host'']
      \<subseteq> set [''(request-target)'', ''host'', ''digest'']" by simp
  show ?thesis
    by (intro conjI t sr a' v3' sub' v1)
qed

section \<open>Option merging in the key manager\<close>

lemma mapE_Inr_length: "mapE f xs = Inr ys \<Longrightarrow> length ys = length xs"
  by (induction xs arbitrary: ys) (auto split: sum.splits)

lemma mapE_Inr_nth: "mapE f xs = Inr ys \<Longrightarrow> i < length xs \<Longrightarrow> f (xs ! i) = Inr (ys ! i)"
proof (induction xs arbitrary: ys i)
  case Nil
  then show ?case by simp
next
  case (Cons x xs)
  then show ?case by (cases i) (auto split: sum.splits)
qed

lemma mapE_Inl_iff: "(\<exists>e. mapE f xs = Inl e) \<longleftrightarrow> (\<exists>x\<in>set xs. \<exists>e. f x = Inl e)"
  by (induction xs) (auto split: sum.splits)

text \<open>
  What \<open>getKeySigningOptions\<close> computes: when it succeeds, each option is the first defined
  of the key configuration's property of that name and the base value; it fails exactly when
  the key configuration has a property that is \<open>undefined\<close> for an option whose base value is
  \<open>undefined\<close> too.
\<close>

lemma getKeySigningOptions_effective:
  assumes "getKeySigningOptions m kid ov = Inr res" and "i < length (baseSigningOptions m)"
  shows "length res = length (baseSigningOptions m)
       \<and> fst (res ! i) = fst (baseSigningOptions m ! i)
       \<and> snd (res ! i) =
           firstDefined [getProp ov (fst (baseSigningOptions m ! i)), snd (baseSigningOptions m ! i)]"
proof -
  from assms(1) have m: "mapE (\<lambda>(optionKey, v).
             if \<not> hasKey ov optionKey then Inr (optionKey, v)
             else
               (let effectiveValue = firstDefined [getProp ov optionKey, v]
                in if effectiveValue = Undefined
                   then Inl (ConfigurationError
                          (''key config for '' @ kid @ '' has unset option '' @ optionKey))
                   else Inr (optionKey, effectiveValue)))
       (baseSigningOptions m) = Inr res"
    by (simp add: getKeySigningOptions_def)
  have nk: "\<not> hasKey ov k \<Longrightarrow> getProp ov k = Undefined" for k
  proof -
    assume "\<not> hasKey ov k"
    then have "map_of ov k = None" by (simp add: hasKey_def map_of_eq_None_iff)
    then show ?thesis by (simp add: getProp_def)
  qed
  obtain k v where kv: "baseSigningOptions m ! i = (k, v)" by (cases "baseSigningOptions m ! i")
  from mapE_Inr_nth [OF m assms(2)] kv nk [of k] have "res ! i = (k, firstDefined [getProp ov k, v])"
    by (auto simp: Let_def split: if_splits)
  with kv mapE_Inr_length [OF m] show ?thesis by simp
qed

lemma getKeySigningOptions_fails_iff:
  "(\<exists>e. getKeySigningOptions m kid ov = Inl e) \<longleftrightarrow>
     (\<exists>(k, v)\<in>set (baseSigningOptions m). hasKey ov k \<and> getProp ov k = Undefined \<and> v = Undefined)"
proof -
  have "(\<exists>e. (case x of (optionKey, v) \<Rightarrow>
             if \<not> hasKey ov optionKey then Inr (optionKey, v)
             else
               (let effectiveValue = firstDefined [getProp ov optionKey, v]
                in if effectiveValue = Undefined
                   then Inl (ConfigurationError
                          (''key config for '' @ kid @ '' has unset option '' @ optionKey))
                   else Inr (optionKey, effectiveValue))) = Inl e)
        \<longleftrightarrow> (case x of (k, v) \<Rightarrow> hasKey ov k \<and> getProp ov k = Undefined \<and> v = Undefined)"
    for x :: "string \<times> jsval"
    by (cases x) (auto simp: Let_def)
  then show ?thesis
    unfolding getKeySigningOptions_def mapE_Inl_iff by simp
qed

text \<open>
  Claim C8 at a failing input.  The manager is created with a lookup function and
  \<open>calculateDigest: undefined\<close>, so its base value for \<open>calculateDigest\<close> is \<open>undefined\<close>; the
  key configuration has no \<open>calculateDigest\<close> property.  The first defined of the override
  and the base value is \<open>undefined\<close>, and yet the key is constructed, with
  \<open>calculateDigest\<close> undefined in its options: no configuration error is raised.
\<close>

theorem unset_option_not_rejected:
  "(case create example_config of
      Inl e \<Rightarrow> False
    | Inr m \<Rightarrow>
        getProp (baseSigningOptions m) ''calculateDigest'' = Undefined
        \<and> keyLookup m ''test'' = Some example_keyConfig
        \<and> firstDefined [getProp example_keyConfig ''calculateDigest'',
                         getProp (baseSigningOptions m) ''calculateDigest''] = Undefined
        \<and> (case tryGetKey m ''test'' of
              Inr (Some key) \<Rightarrow> getProp (key_options key) ''calculateDigest'' = Undefined
            | _ \<Rightarrow> False))"
  by code_simp

text \<open>
  An override under the \<open>options\<close> property of a key configuration is not read: the
  overrides that \<open>getKeySigningOptions\<close> is given are the key configuration itself.
\<close>

lemma nested_options_not_read:
  "(case create example_config_nested of
      Inl e \<Rightarrow> False
    | Inr m \<Rightarrow>
        getProp (baseSigningOptions m) ''calculateDigest'' = Bool True
        \<and> (case keyLookup m ''test'' of
              None \<Rightarrow> False
            | Some keyConfig \<Rightarrow>
                getProp keyConfig ''options'' = Obj [(''calculateDigest'', Bool False)])
        \<and> (case tryGetKey m ''test'' of
              Inr (Some key) \<Rightarrow> getProp (key_options key) ''calculateDigest'' = Bool True
            | _ \<Rightarrow> False))"
  by code_simp

section \<open>Signing, then verifying\<close>

subsection \<open>Base64: decoding what was encoded\<close>












subsection \<open>The formatted parameters parse back\<close>





lemma toLowerCase_no_ws:
  "(\<forall>c\<in>set h. \<not> isWhiteSpace c) \<Longrightarrow> (\<forall>c\<in>set (toLowerCase h). \<not> isWhiteSpace c)"
  by (simp add: toLowerCase_def isWhiteSpace_toLowerChar)



subsection \<open>The message that carries the signature\<close>











subsection \<open>The round trip\<close>







end
